theory Spec2Isabelle
  imports Main "HOL-Library.Multiset" "HOL-Library.Sublist"
begin

section \<open>Data model of the mediator bus\<close>

text \<open>
  A JavaScript class is an object with reference identity and a \<open>name\<close> property.
  Two different classes may carry the same name, so a class is modelled by an
  identity (\<open>ident\<close>) together with its display name (\<open>className\<close>). The
  comparison \<open>skipType === b.type\<close> of the source is equality of these values;
  \<open>command.name\<close> and \<open>command.constructor.name\<close> read \<open>className\<close>.
\<close>

datatype cls = Class (ident: nat) (className: string)

text \<open>
  \<open>'command' | 'query' | 'all'\<close> of \<open>PipelineBehaviorOptions.scope\<close>. The same
  strings are the \<open>scope\<close> argument of \<open>buildPipeline\<close> and the \<open>requestType\<close> of
  \<open>HandlerNotFoundException\<close>, where only the first two occur.
\<close>

datatype scope = ScopeCommand | ScopeQuery | ScopeAll

text \<open>
  \<open>PipelineBehaviorOptions\<close>: both fields are optional in the source. The priority
  is a JavaScript number; it is modelled as an integer, as the data model of the
  specification has it.
\<close>

record PipelineBehaviorOptions =
  priority :: "int option"
  scope :: "scope option"

text \<open>\<open>interface RegisteredBehavior { type; options }\<close>\<close>

record RegisteredBehavior =
  behaviorType :: cls
  options :: PipelineBehaviorOptions

text \<open>
  The private state of \<open>MediatorBus\<close>: the two handler maps, keyed by a string, the
  behavior array, and the lines written through \<open>this.logger\<close>.
\<close>

record MediatorBus =
  commandHandlers :: "string \<rightharpoonup> cls"
  queryHandlers :: "string \<rightharpoonup> cls"
  pipelineBehaviors :: "RegisteredBehavior list"
  logger :: "string list"

definition newMediatorBus :: MediatorBus where
  "newMediatorBus =
     \<lparr>commandHandlers = Map.empty, queryHandlers = Map.empty,
      pipelineBehaviors = [], logger = []\<rparr>"

text \<open>
  A request instance: its constructor (\<open>request.constructor\<close>), whether the value is
  a non-null object (what \<open>!request || typeof request !== 'object'\<close> tests in the
  validation behavior; true for every instance of a request class), and its fields.
\<close>

record 'p request =
  requestClass :: cls
  isObject :: bool
  payload :: 'p

text \<open>\<open>interface ValidationError\<close> (the \<open>value?: any\<close> field is left out).\<close>

datatype ValidationError =
  ValidationError (property: string) (message: string) (code: "string option")
    (children: "ValidationError list")

text \<open>
  What a promise can reject with. \<open>Error\<close> is the plain \<open>new Error(message)\<close> of
  the registration methods; \<open>HandlerNotFoundException\<close> carries \<open>requestName\<close> and
  \<open>requestType\<close>; \<open>ValidationException\<close> carries \<open>errors\<close>.
  \<open>UnknownElementException\<close> is what \<open>moduleRef.get\<close> throws for a class the
  container does not hold, and \<open>TypeError\<close> what calling a missing method throws.
\<close>

datatype error =
  Error string
  | HandlerNotFoundException string scope
  | ValidationException "ValidationError list"
  | UnknownElementException string
  | TypeError string

subsection \<open>Messages\<close>

fun showNat :: "nat \<Rightarrow> string" where
  "showNat n =
     (if n < 10 then [char_of (48 + n)]
      else showNat (n div 10) @ [char_of (48 + n mod 10)])"

declare showNat.simps [simp del]

definition showInt :: "int \<Rightarrow> string" where
  "showInt i = (if i < 0 then ''-'' @ showNat (nat (- i)) else showNat (nat i))"

fun showScope :: "scope \<Rightarrow> string" where
  "showScope ScopeCommand = ''command''"
| "showScope ScopeQuery = ''query''"
| "showScope ScopeAll = ''all''"

fun joinWith :: "string \<Rightarrow> string list \<Rightarrow> string" where
  "joinWith sep [] = []"
| "joinWith sep [x] = x"
| "joinWith sep (x # y # ys) = x @ sep @ joinWith sep (y # ys)"

text \<open>\<open>ValidationException.formatMessage\<close>\<close>

definition formatMessage :: "ValidationError list \<Rightarrow> string" where
  "formatMessage errors =
     (case errors of
        [] \<Rightarrow> ''Validation failed''
      | [e] \<Rightarrow> ''Validation failed: '' @ property e @ '' - '' @ message e
      | _ \<Rightarrow>
          ''Validation failed with '' @ showNat (length errors) @ '' errors: '' @
          joinWith ''; '' (map (\<lambda>e. property e @ '': '' @ message e) errors))"

text \<open>The \<open>message\<close> property each constructor gives its error.\<close>

fun errorMessage :: "error \<Rightarrow> string" where
  "errorMessage (Error m) = m"
| "errorMessage (HandlerNotFoundException requestName requestType) =
     ''No handler registered for '' @ showScope requestType @ '': '' @ requestName @
     ''. Did you forget to add @'' @
     (if requestType = ScopeCommand then ''CommandHandler'' else ''QueryHandler'') @
     '' decorator?''"
| "errorMessage (ValidationException errors) = formatMessage errors"
| "errorMessage (UnknownElementException m) = m"
| "errorMessage (TypeError m) = m"

section \<open>Registration\<close>

text \<open>
  A method of the bus takes the bus and returns its outcome with the bus afterwards:
  \<open>Inl\<close> is a thrown error, \<open>Inr\<close> a normal return.
\<close>

definition registerCommandHandler ::
  "cls \<Rightarrow> cls \<Rightarrow> MediatorBus \<Rightarrow> (error + unit) \<times> MediatorBus" where
  "registerCommandHandler command handler bus =
     (let commandName = className command in
      if commandHandlers bus commandName \<noteq> None
      then (Inl (Error (''Command handler for '' @ commandName @ '' is already registered'')), bus)
      else (Inr (), bus\<lparr>commandHandlers := (commandHandlers bus)(commandName \<mapsto> handler)\<rparr>))"

definition registerQueryHandler ::
  "cls \<Rightarrow> cls \<Rightarrow> MediatorBus \<Rightarrow> (error + unit) \<times> MediatorBus" where
  "registerQueryHandler query handler bus =
     (let queryName = className query in
      if queryHandlers bus queryName \<noteq> None
      then (Inl (Error (''Query handler for '' @ queryName @ '' is already registered'')), bus)
      else (Inr (), bus\<lparr>queryHandlers := (queryHandlers bus)(queryName \<mapsto> handler)\<rparr>))"

text \<open>
  \<open>Array.prototype.sort(comparefn)\<close> is a stable sort: \<open>a\<close> comes before \<open>b\<close> when
  \<open>comparefn(a, b) < 0\<close>, and elements that compare equal keep their order. It is
  written out as an insertion sort that inserts from the right.
\<close>

fun insertBy :: "('a \<Rightarrow> 'a \<Rightarrow> int) \<Rightarrow> 'a \<Rightarrow> 'a list \<Rightarrow> 'a list" where
  "insertBy comparefn x [] = [x]"
| "insertBy comparefn x (y # ys) =
     (if comparefn x y \<le> 0 then x # y # ys else y # insertBy comparefn x ys)"

definition arraySort :: "('a \<Rightarrow> 'a \<Rightarrow> int) \<Rightarrow> 'a list \<Rightarrow> 'a list" where
  "arraySort comparefn xs = foldr (insertBy comparefn) xs []"

text \<open>\<open>options.priority ?? 0\<close> and \<open>options.scope ?? 'all'\<close>\<close>

definition priorityOf :: "RegisteredBehavior \<Rightarrow> int" where
  "priorityOf b = (case priority (options b) of None \<Rightarrow> 0 | Some p \<Rightarrow> p)"

definition scopeOf :: "RegisteredBehavior \<Rightarrow> scope" where
  "scopeOf b = (case scope (options b) of None \<Rightarrow> ScopeAll | Some s \<Rightarrow> s)"

text \<open>The comparator \<open>(a, b) => (a.options.priority ?? 0) - (b.options.priority ?? 0)\<close>\<close>

definition comparePriority :: "RegisteredBehavior \<Rightarrow> RegisteredBehavior \<Rightarrow> int" where
  "comparePriority a b = priorityOf a - priorityOf b"

definition registerPipelineBehavior ::
  "cls \<Rightarrow> PipelineBehaviorOptions \<Rightarrow> MediatorBus \<Rightarrow> (error + unit) \<times> MediatorBus" where
  "registerPipelineBehavior behaviorType' options' bus =
     (let registered = \<lparr>behaviorType = behaviorType', options = options'\<rparr>;
          pushed = pipelineBehaviors bus @ [registered];
          sorted' = arraySort comparePriority pushed
      in (Inr (),
          bus\<lparr>pipelineBehaviors := sorted',
              logger := logger bus @
                [''Registered pipeline behavior: '' @ className behaviorType' @
                 '' (priority: '' @ showInt (priorityOf registered) @
                 '', scope: '' @ showScope (scopeOf registered) @ '')'']\<rparr>))"

text \<open>
  A startup phase: the behavior registrations of a list, in order, each through
  \<open>registerPipelineBehavior\<close>.
\<close>

definition registerBehaviors ::
  "(cls \<times> PipelineBehaviorOptions) list \<Rightarrow> MediatorBus \<Rightarrow> MediatorBus" where
  "registerBehaviors regs bus =
     foldl (\<lambda>b (t, opts). snd (registerPipelineBehavior t opts b)) bus regs"

definition registration :: "cls \<times> PipelineBehaviorOptions \<Rightarrow> RegisteredBehavior" where
  "registration r = \<lparr>behaviorType = fst r, options = snd r\<rparr>"

section \<open>Dispatch\<close>

text \<open>
  A zero-argument asynchronous function \<open>() => Promise<T>\<close> run against the state
  \<open>'w\<close> of everything outside the bus: it ends rejected (\<open>Inl\<close>) or resolved
  (\<open>Inr\<close>) and leaves a new state. One dispatch awaits every call it makes, so the
  chain of one dispatch runs sequentially.
\<close>

type_synonym ('w, 'r) task = "'w \<Rightarrow> (error + 'r) \<times> 'w"

text \<open>
  What \<open>moduleRef.get(type, { strict: false })\<close> returns: an object on which the bus
  calls \<open>execute(request)\<close> (a handler) or \<open>handle(request, next)\<close> (a behavior). A
  method the object lacks is \<open>None\<close>.
\<close>

record ('p, 'w, 'r) providerInstance =
  execute :: "('p request \<Rightarrow> ('w, 'r) task) option"
  handle :: "('p request \<Rightarrow> ('w, 'r) task \<Rightarrow> ('w, 'r) task) option"

type_synonym ('p, 'w, 'r) moduleRef = "cls \<Rightarrow> ('p, 'w, 'r) providerInstance option"

text \<open>
  The metadata the decorators attach to classes: \<open>SKIP_BEHAVIORS_METADATA\<close> on a
  request class (set by \<open>SkipBehavior\<close> and \<open>SkipBehaviors\<close>), and on a behavior
  class whose \<open>handle\<close> carries \<open>@Handle()\<close> the type of the first parameter of
  \<open>handle\<close> (the \<open>design:paramtypes\<close> entry the decorator makes TypeScript emit).
\<close>

record reflector =
  skipBehaviorsMetadata :: "cls \<Rightarrow> cls list option"
  handleParamType :: "cls \<Rightarrow> cls option"

text \<open>
  \<open>SkipBehavior(behavior)\<close> and \<open>SkipBehaviors(behaviors)\<close> applied to a request class:
  the first wraps a single class into an array.
\<close>

definition SkipBehaviors :: "cls list \<Rightarrow> cls \<Rightarrow> reflector \<Rightarrow> reflector" where
  "SkipBehaviors behaviors target r =
     r\<lparr>skipBehaviorsMetadata := (skipBehaviorsMetadata r)(target := Some behaviors)\<rparr>"

definition SkipBehavior :: "cls list + cls \<Rightarrow> cls \<Rightarrow> reflector \<Rightarrow> reflector" where
  "SkipBehavior behavior target r =
     (let behaviors = (case behavior of Inl bs \<Rightarrow> bs | Inr b \<Rightarrow> [b])
      in r\<lparr>skipBehaviorsMetadata := (skipBehaviorsMetadata r)(target := Some behaviors)\<rparr>)"

definition noMetadata :: reflector where
  "noMetadata = \<lparr>skipBehaviorsMetadata = (\<lambda>_. None), handleParamType = (\<lambda>_. None)\<rparr>"

text \<open>\<open>this.reflector.get(SKIP_BEHAVIORS_METADATA, requestClass) ?? []\<close>\<close>

definition behaviorsToSkip :: "reflector \<Rightarrow> 'p request \<Rightarrow> cls list" where
  "behaviorsToSkip r request =
     (case skipBehaviorsMetadata r (requestClass request) of None \<Rightarrow> [] | Some ts \<Rightarrow> ts)"

text \<open>The predicate of the \<open>filter\<close> in \<open>buildPipeline\<close>.\<close>

definition isApplicable :: "reflector \<Rightarrow> 'p request \<Rightarrow> scope \<Rightarrow> RegisteredBehavior \<Rightarrow> bool" where
  "isApplicable r request scope' b =
     (let behaviorScope = scopeOf b;
          scopeMatches = (behaviorScope = ScopeAll \<or> behaviorScope = scope');
          shouldSkip = list_ex (\<lambda>skipType. skipType = behaviorType b) (behaviorsToSkip r request)
      in scopeMatches \<and> \<not> shouldSkip)"

definition applicableBehaviors ::
  "MediatorBus \<Rightarrow> reflector \<Rightarrow> 'p request \<Rightarrow> scope \<Rightarrow> RegisteredBehavior list" where
  "applicableBehaviors bus r request scope' =
     filter (isApplicable r request scope') (pipelineBehaviors bus)"

text \<open>
  The closure \<open>async () => { const behavior = this.moduleRef.get(type); return
  behavior.handle(request, next); }\<close> that \<open>reduceRight\<close> builds for one behavior.
\<close>

definition invokeBehavior ::
  "('p, 'w, 'r) moduleRef \<Rightarrow> 'p request \<Rightarrow> RegisteredBehavior \<Rightarrow> ('w, 'r) task \<Rightarrow> ('w, 'r) task" where
  "invokeBehavior moduleRef request registeredBehavior next =
     (\<lambda>w. case moduleRef (behaviorType registeredBehavior) of
             None \<Rightarrow>
               (Inl (UnknownElementException (className (behaviorType registeredBehavior))), w)
           | Some behavior \<Rightarrow>
               (case handle behavior of
                  None \<Rightarrow> (Inl (TypeError ''behavior.handle is not a function''), w)
                | Some h \<Rightarrow> h request next w))"

definition buildPipeline ::
  "MediatorBus \<Rightarrow> ('p, 'w, 'r) moduleRef \<Rightarrow> reflector \<Rightarrow> 'p request \<Rightarrow> scope \<Rightarrow>
   ('w, 'r) task \<Rightarrow> ('w, 'r) task" where
  "buildPipeline bus moduleRef r request scope' handler =
     (let applicable = applicableBehaviors bus r request scope' in
      if length applicable = 0 then handler
      else foldr (invokeBehavior moduleRef request) applicable handler)"

text \<open>The terminal continuation \<open>() => handler.execute(request)\<close>.\<close>

definition executeHandler ::
  "('p, 'w, 'r) providerInstance \<Rightarrow> 'p request \<Rightarrow> ('w, 'r) task" where
  "executeHandler handler request =
     (\<lambda>w. case execute handler of
             None \<Rightarrow> (Inl (TypeError ''handler.execute is not a function''), w)
           | Some ex \<Rightarrow> ex request w)"

text \<open>
  \<open>send\<close> and \<open>query\<close> return the outcome, the bus afterwards and the outer state
  afterwards. \<open>send\<close> awaits the pipeline and drops its value.
\<close>

definition send ::
  "MediatorBus \<Rightarrow> ('p, 'w, 'r) moduleRef \<Rightarrow> reflector \<Rightarrow> 'p request \<Rightarrow> 'w \<Rightarrow>
   (error + unit) \<times> MediatorBus \<times> 'w" where
  "send bus moduleRef r command w =
     (let commandName = className (requestClass command) in
      case commandHandlers bus commandName of
        None \<Rightarrow> (Inl (HandlerNotFoundException commandName ScopeCommand), bus, w)
      | Some handlerType \<Rightarrow>
          (case moduleRef handlerType of
             None \<Rightarrow> (Inl (UnknownElementException (className handlerType)), bus, w)
           | Some handler \<Rightarrow>
               (let pipeline =
                      buildPipeline bus moduleRef r command ScopeCommand
                        (executeHandler handler command)
                in case pipeline w of
                     (Inl e, w') \<Rightarrow> (Inl e, bus, w')
                   | (Inr _, w') \<Rightarrow> (Inr (), bus, w'))))"

definition query ::
  "MediatorBus \<Rightarrow> ('p, 'w, 'r) moduleRef \<Rightarrow> reflector \<Rightarrow> 'p request \<Rightarrow> 'w \<Rightarrow>
   (error + 'r) \<times> MediatorBus \<times> 'w" where
  "query bus moduleRef r query' w =
     (let queryName = className (requestClass query') in
      case queryHandlers bus queryName of
        None \<Rightarrow> (Inl (HandlerNotFoundException queryName ScopeQuery), bus, w)
      | Some handlerType \<Rightarrow>
          (case moduleRef handlerType of
             None \<Rightarrow> (Inl (UnknownElementException (className handlerType)), bus, w)
           | Some handler \<Rightarrow>
               (let pipeline =
                      buildPipeline bus moduleRef r query' ScopeQuery
                        (executeHandler handler query')
                in case pipeline w of (res, w') \<Rightarrow> (res, bus, w'))))"

section \<open>The validation behavior\<close>

text \<open>
  The optional class-validator package is not part of the repository; what
  \<open>ValidationBehavior\<close> uses of it is a parameter. A \<open>cvError\<close> is one of the
  package's errors: \<open>property\<close>, \<open>constraints\<close> (an object from constraint name to
  message, or undefined) and \<open>children\<close> (undefined counts as empty). The module
  gives \<open>validate\<close>, which may reject, and the number of validation metadata entries
  of a class (\<open>getMetadataStorage().getTargetValidationMetadatas(...)\<close>, which may
  throw); a module may lack either function.
\<close>

datatype cvError =
  CvError (cvProperty: string) (cvConstraints: "(string \<times> string) list option")
    (cvChildren: "cvError list")

record ('p, 'w) classValidator =
  validate :: "('p request \<Rightarrow> 'w \<Rightarrow> (error + cvError list) \<times> 'w) option"
  getTargetValidationMetadatas :: "(cls \<Rightarrow> string \<Rightarrow> error + nat) option"

text \<open>
  \<open>transformClassValidatorErrors\<close>: one error for every message of
  \<open>Object.values(error.constraints)\<close>, then the transformed children with the
  property of the parent put in front.
\<close>

fun transformClassValidatorErrors :: "cvError list \<Rightarrow> ValidationError list" where
  "transformClassValidatorErrors [] = []"
| "transformClassValidatorErrors (CvError p constraints' children' # rest) =
     (case constraints' of
        None \<Rightarrow> []
      | Some kv \<Rightarrow> map (\<lambda>m. ValidationError p m None []) (map snd kv))
     @ (if length children' > 0
        then map (\<lambda>childError.
                    ValidationError (p @ ''.'' @ property childError) (message childError)
                      (code childError) (children childError))
               (transformClassValidatorErrors children')
        else [])
     @ transformClassValidatorErrors rest"

text \<open>
  \<open>validateRequest\<close>, after \<open>loadClassValidator\<close>: \<open>imported\<close> is what the dynamic
  import of the package gave (\<open>None\<close> when it is not installed); the three private
  fields of the behavior only cache it. Everything the package throws is caught and
  counts as no error.
\<close>

definition validateRequest ::
  "('p, 'w) classValidator option \<Rightarrow> 'p request \<Rightarrow> 'w \<Rightarrow> ValidationError list \<times> 'w" where
  "validateRequest imported request w =
     (case imported of
        None \<Rightarrow> ([], w)
      | Some classValidator \<Rightarrow>
          (case (validate classValidator, getTargetValidationMetadatas classValidator) of
             (Some validateFn, Some getMetadatas) \<Rightarrow>
               (let targetConstructor = requestClass request in
                case getMetadatas targetConstructor (className targetConstructor) of
                  Inl e \<Rightarrow> ([], w)
                | Inr targetMetadatas \<Rightarrow>
                    if targetMetadatas = 0 then ([], w)
                    else (case validateFn request w of
                            (Inl e, w') \<Rightarrow> ([], w')
                          | (Inr classValidatorErrors, w') \<Rightarrow>
                              (transformClassValidatorErrors classValidatorErrors, w')))
           | _ \<Rightarrow> ([], w)))"

text \<open>\<open>ValidationBehavior.handle\<close>\<close>

definition ValidationBehavior_handle ::
  "('p, 'w) classValidator option \<Rightarrow> 'p request \<Rightarrow> ('w, 'r) task \<Rightarrow> ('w, 'r) task" where
  "ValidationBehavior_handle imported request next =
     (\<lambda>w. if \<not> isObject request then next w
           else (case validateRequest imported request w of
                   (errors, w') \<Rightarrow>
                     if length errors > 0 then (Inl (ValidationException errors), w')
                     else next w'))"

section \<open>A trace log for dispatch scenarios\<close>

text \<open>
  The scenarios of the specification observe a dispatch through a shared trace log.
  The outer state is the log; a tracing behavior is the \<open>handle\<close> that writes
  \<open>enter\<close>, awaits \<open>next()\<close>, writes \<open>exit\<close> and returns what \<open>next()\<close>
  returned; the handler writes what it returns.
\<close>

datatype 'r event = Enter cls | Exit cls | HandlerReturns 'r

definition tracingHandle ::
  "cls \<Rightarrow> 'p request \<Rightarrow> ('r event list, 'r) task \<Rightarrow> ('r event list, 'r) task" where
  "tracingHandle t request next =
     (\<lambda>w. case next (w @ [Enter t]) of
             (Inl e, w') \<Rightarrow> (Inl e, w')
           | (Inr res, w') \<Rightarrow> (Inr res, w' @ [Exit t]))"

definition returningExecute :: "'r \<Rightarrow> 'p request \<Rightarrow> ('r event list, 'r) task" where
  "returningExecute v request = (\<lambda>w. (Inr v, w @ [HandlerReturns v]))"

text \<open>
  A container in which every class resolves to an object whose \<open>handle\<close> traces
  under the name of the class and whose \<open>execute\<close> returns \<open>v\<close>.
\<close>

definition tracingModuleRef :: "'r \<Rightarrow> ('p, 'r event list, 'r) moduleRef" where
  "tracingModuleRef v =
     (\<lambda>c. Some \<lparr>execute = Some (returningExecute v), handle = Some (tracingHandle c)\<rparr>)"

section \<open>Duplicate handler registration\<close>

lemma registerCommandHandler_duplicate:
  "commandHandlers bus (className command) = Some h0 \<Longrightarrow>
   registerCommandHandler command handler bus =
     (Inl (Error (''Command handler for '' @ className command @ '' is already registered'')), bus)"
  by (simp add: registerCommandHandler_def)

lemma registerQueryHandler_duplicate:
  "queryHandlers bus (className q) = Some h0 \<Longrightarrow>
   registerQueryHandler q handler bus =
     (Inl (Error (''Query handler for '' @ className q @ '' is already registered'')), bus)"
  by (simp add: registerQueryHandler_def)

lemma registerCommandHandler_fresh:
  "commandHandlers bus (className command) = None \<Longrightarrow>
   registerCommandHandler command handler bus =
     (Inr (), bus\<lparr>commandHandlers := (commandHandlers bus)(className command \<mapsto> handler)\<rparr>)"
  by (simp add: registerCommandHandler_def)

lemma registerQueryHandler_fresh:
  "queryHandlers bus (className q) = None \<Longrightarrow>
   registerQueryHandler q handler bus =
     (Inr (), bus\<lparr>queryHandlers := (queryHandlers bus)(className q \<mapsto> handler)\<rparr>)"
  by (simp add: registerQueryHandler_def)

text \<open>
  C3. Calling \<open>registerCommandHandler\<close> (or \<open>registerQueryHandler\<close>) for a request
  type whose entry is already in the map of that namespace throws (the source throws a
  plain \<open>Error\<close> whose message says that the handler is already registered) and
  leaves the bus as it was, so the handler stored first is still the one the map gives
  for that request type.
\<close>

theorem C3_duplicate_handler_rejected:
  "(commandHandlers bus (className command) = Some h0 \<longrightarrow>
      registerCommandHandler command handler bus =
        (Inl (Error (''Command handler for '' @ className command @ '' is already registered'')), bus)
      \<and> commandHandlers (snd (registerCommandHandler command handler bus)) (className command)
          = Some h0)
   \<and> (queryHandlers bus (className command) = Some h0 \<longrightarrow>
      registerQueryHandler command handler bus =
        (Inl (Error (''Query handler for '' @ className command @ '' is already registered'')), bus)
      \<and> queryHandlers (snd (registerQueryHandler command handler bus)) (className command)
          = Some h0)"
  by (simp add: registerCommandHandler_duplicate registerQueryHandler_duplicate)

text \<open>
  The scenario of C3: on a new bus, \<open>CreateUserCommand\<close> is registered with
  \<open>CreateUserHandler\<close>; registering it again with another handler is rejected and the
  bus still maps the command to \<open>CreateUserHandler\<close>.
\<close>

theorem C3_duplicate_handler_rejected_witness:
  "(let created = snd (registerCommandHandler (Class 1 ''CreateUserCommand'')
                        (Class 2 ''CreateUserHandler'') newMediatorBus)
    in commandHandlers created ''CreateUserCommand'' = Some (Class 2 ''CreateUserHandler'')
       \<and> registerCommandHandler (Class 1 ''CreateUserCommand'') (Class 3 ''OtherHandler'') created
           = (Inl (Error ''Command handler for CreateUserCommand is already registered''), created)
       \<and> commandHandlers
            (snd (registerCommandHandler (Class 1 ''CreateUserCommand'')
                   (Class 3 ''OtherHandler'') created)) ''CreateUserCommand''
           = Some (Class 2 ''CreateUserHandler''))
   \<and> (let asked = snd (registerQueryHandler (Class 4 ''GetUserQuery'')
                        (Class 5 ''GetUserHandler'') newMediatorBus)
      in queryHandlers asked ''GetUserQuery'' = Some (Class 5 ''GetUserHandler'')
         \<and> registerQueryHandler (Class 4 ''GetUserQuery'') (Class 3 ''OtherHandler'') asked
             = (Inl (Error ''Query handler for GetUserQuery is already registered''), asked))"
proof -
  let ?created = "snd (registerCommandHandler (Class 1 ''CreateUserCommand'')
                        (Class 2 ''CreateUserHandler'') newMediatorBus)"
  let ?asked = "snd (registerQueryHandler (Class 4 ''GetUserQuery'')
                        (Class 5 ''GetUserHandler'') newMediatorBus)"
  have c: "commandHandlers ?created (className (Class 1 ''CreateUserCommand''))
             = Some (Class 2 ''CreateUserHandler'')"
    by (simp add: registerCommandHandler_def newMediatorBus_def)
  have q: "queryHandlers ?asked (className (Class 4 ''GetUserQuery''))
             = Some (Class 5 ''GetUserHandler'')"
    by (simp add: registerQueryHandler_def newMediatorBus_def)
  from c q
    C3_duplicate_handler_rejected
      [of ?created "Class 1 ''CreateUserCommand''" "Class 2 ''CreateUserHandler''"
          "Class 3 ''OtherHandler''"]
    C3_duplicate_handler_rejected
      [of ?asked "Class 4 ''GetUserQuery''" "Class 5 ''GetUserHandler''"
          "Class 3 ''OtherHandler''"]
  show ?thesis by (simp add: Let_def)
qed

section \<open>Dispatch without a handler\<close>

text \<open>
  C7, as stated, fails: the handler maps are looked up by
  \<open>command.constructor.name\<close>. A request whose class was never registered, but
  which carries the name of a registered class, is dispatched to the handler of that
  other class, and no \<open>HandlerNotFoundException\<close> is raised; so for \<open>send\<close>, so
  for \<open>query\<close>.
\<close>

theorem C7_unregistered_type_with_registered_name:
  "(let GetUserQuery = Class 4 ''GetUserQuery''; OtherGetUserQuery = Class 44 ''GetUserQuery'';
        DeleteUserCommand = Class 6 ''DeleteUserCommand'';
        OtherDeleteUserCommand = Class 46 ''DeleteUserCommand'';
        GetUserHandler = Class 5 ''GetUserHandler'';
        DeleteUserHandler = Class 7 ''DeleteUserHandler'';
        bus = snd (registerQueryHandler GetUserQuery GetUserHandler
                (snd (registerCommandHandler DeleteUserCommand DeleteUserHandler newMediatorBus)));
        moduleRef = (\<lambda>c. if c = GetUserHandler
                          then Some \<lparr>execute = Some (returningExecute ''user''), handle = None\<rparr>
                          else if c = DeleteUserHandler
                          then Some \<lparr>execute = Some (returningExecute ''deleted''), handle = None\<rparr>
                          else None);
        command = \<lparr>requestClass = OtherDeleteUserCommand, isObject = True, payload = ()\<rparr>;
        question = \<lparr>requestClass = OtherGetUserQuery, isObject = True, payload = ()\<rparr>
    in OtherDeleteUserCommand \<noteq> DeleteUserCommand \<and> OtherGetUserQuery \<noteq> GetUserQuery
       \<and> send bus moduleRef noMetadata command [] = (Inr (), bus, [HandlerReturns ''deleted''])
       \<and> fst (send bus moduleRef noMetadata command [])
           \<noteq> Inl (HandlerNotFoundException ''DeleteUserCommand'' ScopeCommand)
       \<and> query bus moduleRef noMetadata question [] = (Inr ''user'', bus, [HandlerReturns ''user''])
       \<and> fst (query bus moduleRef noMetadata question [])
           \<noteq> Inl (HandlerNotFoundException ''GetUserQuery'' ScopeQuery))"
  by (simp add: Let_def registerCommandHandler_def registerQueryHandler_def newMediatorBus_def
        send_def query_def buildPipeline_def applicableBehaviors_def executeHandler_def
        returningExecute_def)

text \<open>
  C7, amended. \<open>send\<close> of a request under whose class name the command map has no
  entry rejects with \<open>HandlerNotFoundException\<close> carrying that name and
  \<open>'command'\<close>; \<open>query\<close> does the same against the query map with \<open>'query'\<close>. The
  message of the exception names both. The bus and the outer state are as before.
\<close>

theorem C7_handler_not_found:
  "(commandHandlers bus (className (requestClass request)) = None \<longrightarrow>
      send bus moduleRef r request w =
        (Inl (HandlerNotFoundException (className (requestClass request)) ScopeCommand), bus, w))
   \<and> (queryHandlers bus (className (requestClass request)) = None \<longrightarrow>
      query bus moduleRef r request w =
        (Inl (HandlerNotFoundException (className (requestClass request)) ScopeQuery), bus, w))
   \<and> errorMessage (HandlerNotFoundException (className (requestClass request)) ScopeCommand)
       = ''No handler registered for command: '' @ className (requestClass request) @
         ''. Did you forget to add @CommandHandler decorator?''
   \<and> errorMessage (HandlerNotFoundException (className (requestClass request)) ScopeQuery)
       = ''No handler registered for query: '' @ className (requestClass request) @
         ''. Did you forget to add @QueryHandler decorator?''"
  by (simp add: send_def query_def)

text \<open>
  The scenario of the amended C7: only \<open>GetUserQuery\<close> has a (query) handler; sending a
  \<open>DeleteUserCommand\<close> and querying with it both fail, each naming its namespace.
\<close>

theorem C7_handler_not_found_witness:
  "(let bus = snd (registerQueryHandler (Class 4 ''GetUserQuery'')
                     (Class 5 ''GetUserHandler'') newMediatorBus);
        request = \<lparr>requestClass = Class 6 ''DeleteUserCommand'', isObject = True, payload = ()\<rparr>
    in send bus (tracingModuleRef (0::int)) noMetadata request []
         = (Inl (HandlerNotFoundException ''DeleteUserCommand'' ScopeCommand), bus, [])
       \<and> query bus (tracingModuleRef (0::int)) noMetadata request []
         = (Inl (HandlerNotFoundException ''DeleteUserCommand'' ScopeQuery), bus, [])
       \<and> errorMessage (HandlerNotFoundException ''DeleteUserCommand'' ScopeCommand)
         = ''No handler registered for command: DeleteUserCommand. Did you forget to add @CommandHandler decorator?'')"
proof -
  let ?bus = "snd (registerQueryHandler (Class 4 ''GetUserQuery'')
                     (Class 5 ''GetUserHandler'') newMediatorBus)"
  let ?request = "\<lparr>requestClass = Class 6 ''DeleteUserCommand'', isObject = True, payload = ()\<rparr>"
  have c: "commandHandlers ?bus (className (requestClass ?request)) = None"
    by (simp add: registerQueryHandler_def newMediatorBus_def)
  have q: "queryHandlers ?bus (className (requestClass ?request)) = None"
    by (simp add: registerQueryHandler_def newMediatorBus_def)
  from c q
    C7_handler_not_found [of ?bus ?request "tracingModuleRef (0::int)" noMetadata "[]"]
  show ?thesis by (simp add: Let_def)
qed

section \<open>The behavior list stays sorted\<close>

text \<open>
  With the priority comparator, \<open>arraySort\<close> is the stable insertion sort
  \<open>sort_key\<close> of the list library on the key \<open>priorityOf\<close>.
\<close>

lemma insertBy_comparePriority:
  "insertBy comparePriority x ys = insort_key priorityOf x ys"
  by (induction ys) (auto simp: comparePriority_def)

lemma arraySort_comparePriority:
  "arraySort comparePriority xs = sort_key priorityOf xs"
  by (induction xs) (auto simp: arraySort_def insertBy_comparePriority)

lemma sort_key_append_sorted:
  "sort_key f (sort_key f xs @ ys) = sort_key f (xs @ ys)"
proof (rule sym, rule properties_for_sort_key)
  show "mset (sort_key f (sort_key f xs @ ys)) = mset (xs @ ys)" by simp
next
  fix k
  assume "k \<in> set (sort_key f (sort_key f xs @ ys))"
  have "filter (\<lambda>x. f k = f x) (sort_key f (sort_key f xs @ ys))
        = filter (\<lambda>x. f x = f k) (sort_key f (sort_key f xs @ ys))"
    by (rule filter_cong) auto
  also have "\<dots> = filter (\<lambda>x. f x = f k) (sort_key f xs @ ys)"
    by (rule sort_key_stable)
  also have "\<dots> = filter (\<lambda>x. f x = f k) (sort_key f xs) @ filter (\<lambda>x. f x = f k) ys"
    by simp
  also have "\<dots> = filter (\<lambda>x. f x = f k) xs @ filter (\<lambda>x. f x = f k) ys"
    by (simp only: sort_key_stable)
  also have "\<dots> = filter (\<lambda>x. f k = f x) (xs @ ys)"
    by (simp add: eq_commute[of "f k"])
  finally show "filter (\<lambda>x. f k = f x) (sort_key f (sort_key f xs @ ys))
        = filter (\<lambda>x. f k = f x) (xs @ ys)" .
next
  show "sorted (map f (sort_key f (sort_key f xs @ ys)))" by (rule sorted_sort_key)
qed

lemma pipelineBehaviors_register:
  "pipelineBehaviors (snd (registerPipelineBehavior t opts bus))
     = sort_key priorityOf (pipelineBehaviors bus @ [registration (t, opts)])"
  by (simp add: registerPipelineBehavior_def Let_def arraySort_comparePriority registration_def)

lemma pipelineBehaviors_registerBehaviors:
  "sorted (map priorityOf (pipelineBehaviors bus)) \<Longrightarrow>
   pipelineBehaviors (registerBehaviors regs bus)
     = sort_key priorityOf (pipelineBehaviors bus @ map registration regs)"
proof (induction regs arbitrary: bus)
  case Nil
  then show ?case by (simp add: registerBehaviors_def sort_key_id_if_sorted)
next
  case (Cons x regs)
  obtain t opts where x: "x = (t, opts)" by (cases x)
  let ?bus1 = "snd (registerPipelineBehavior t opts bus)"
  have s: "sorted (map priorityOf (pipelineBehaviors ?bus1))"
    by (simp add: pipelineBehaviors_register)
  have "registerBehaviors (x # regs) bus = registerBehaviors regs ?bus1"
    by (simp add: registerBehaviors_def x)
  then show ?case
    using Cons.IH[OF s]
    by (simp add: pipelineBehaviors_register sort_key_append_sorted x)
qed

lemma commandHandlers_registerBehaviors [simp]:
  "commandHandlers (registerBehaviors regs bus) = commandHandlers bus"
  by (induction regs arbitrary: bus)
     (simp_all add: registerBehaviors_def registerPipelineBehavior_def Let_def split: prod.splits)

lemma queryHandlers_registerBehaviors [simp]:
  "queryHandlers (registerBehaviors regs bus) = queryHandlers bus"
  by (induction regs arbitrary: bus)
     (simp_all add: registerBehaviors_def registerPipelineBehavior_def Let_def split: prod.splits)

lemma pipelineBehaviors_registerBehaviors_new:
  "pipelineBehaviors bus = [] \<Longrightarrow>
   pipelineBehaviors (registerBehaviors regs bus) = sort_key priorityOf (map registration regs)"
  using pipelineBehaviors_registerBehaviors [of bus regs] by simp

lemma applicableBehaviors_registerBehaviors:
  "pipelineBehaviors bus = [] \<Longrightarrow>
   applicableBehaviors (registerBehaviors regs bus) r request sc
     = sort_key priorityOf (filter (isApplicable r request sc) (map registration regs))"
  by (simp add: applicableBehaviors_def pipelineBehaviors_registerBehaviors_new filter_sort)

text \<open>
  C4. After every call of \<open>registerPipelineBehavior\<close> the behavior list is in
  ascending priority order, and the behaviors of one priority stand in the order in
  which they were registered: the call appends and sorts stably. For a startup phase
  that registers \<open>regs\<close> on a new bus, the list holds exactly the registrations
  (as a multiset), sorted, each priority level in registration order. A dispatch only
  filters the list: the applicable behaviors are a subsequence of it.
\<close>

theorem C4_behaviors_sorted_stable:
  "sorted (map priorityOf (pipelineBehaviors (registerBehaviors regs newMediatorBus)))
   \<and> filter (\<lambda>b. priorityOf b = k) (pipelineBehaviors (registerBehaviors regs newMediatorBus))
       = filter (\<lambda>b. priorityOf b = k) (map registration regs)
   \<and> mset (pipelineBehaviors (registerBehaviors regs newMediatorBus))
       = mset (map registration regs)
   \<and> sorted (map priorityOf (pipelineBehaviors (snd (registerPipelineBehavior t opts bus))))
   \<and> filter (\<lambda>b. priorityOf b = k) (pipelineBehaviors (snd (registerPipelineBehavior t opts bus)))
       = filter (\<lambda>b. priorityOf b = k) (pipelineBehaviors bus @ [registration (t, opts)])
   \<and> subseq (applicableBehaviors bus r request sc) (pipelineBehaviors bus)"
proof -
  have n: "pipelineBehaviors newMediatorBus = []" by (simp add: newMediatorBus_def)
  have 1: "sorted (map priorityOf (pipelineBehaviors (registerBehaviors regs newMediatorBus)))"
    by (simp only: pipelineBehaviors_registerBehaviors_new [OF n] sorted_sort_key)
  have 2: "filter (\<lambda>b. priorityOf b = k) (pipelineBehaviors (registerBehaviors regs newMediatorBus))
       = filter (\<lambda>b. priorityOf b = k) (map registration regs)"
    by (simp only: pipelineBehaviors_registerBehaviors_new [OF n] sort_key_stable)
  have 3: "mset (pipelineBehaviors (registerBehaviors regs newMediatorBus))
       = mset (map registration regs)"
    by (simp only: pipelineBehaviors_registerBehaviors_new [OF n] mset_sort)
  have 4: "sorted (map priorityOf (pipelineBehaviors (snd (registerPipelineBehavior t opts bus))))"
    by (simp only: pipelineBehaviors_register sorted_sort_key)
  have 5: "filter (\<lambda>b. priorityOf b = k) (pipelineBehaviors (snd (registerPipelineBehavior t opts bus)))
       = filter (\<lambda>b. priorityOf b = k) (pipelineBehaviors bus @ [registration (t, opts)])"
    by (simp only: pipelineBehaviors_register sort_key_stable)
  have 6: "subseq (applicableBehaviors bus r request sc) (pipelineBehaviors bus)"
    by (simp add: applicableBehaviors_def)
  from 1 2 3 4 5 6 show ?thesis by blast
qed

text \<open>
  A startup phase for C4: logging (0), validation (100), exception handling (-100)
  and a behavior with no options (priority 0 by default) are registered in this order;
  the list is then exception handling, logging, the default one, validation.
\<close>

theorem C4_behaviors_sorted_stable_witness:
  "(let regs = [(Class 31 ''LoggingBehavior'', \<lparr>priority = Some 0, scope = Some ScopeAll\<rparr>),
                (Class 32 ''ValidationBehavior'', \<lparr>priority = Some 100, scope = Some ScopeAll\<rparr>),
                (Class 33 ''ExceptionHandlingBehavior'', \<lparr>priority = Some (- 100), scope = Some ScopeAll\<rparr>),
                (Class 34 ''AuditBehavior'', \<lparr>priority = None, scope = None\<rparr>)];
        bus = registerBehaviors regs newMediatorBus
    in map behaviorType (pipelineBehaviors bus)
         = [Class 33 ''ExceptionHandlingBehavior'', Class 31 ''LoggingBehavior'',
            Class 34 ''AuditBehavior'', Class 32 ''ValidationBehavior'']
       \<and> sorted (map priorityOf (pipelineBehaviors bus))
       \<and> filter (\<lambda>b. priorityOf b = 0) (pipelineBehaviors bus)
           = filter (\<lambda>b. priorityOf b = 0) (map registration regs))"
proof -
  let ?regs = "[(Class 31 ''LoggingBehavior'', \<lparr>priority = Some 0, scope = Some ScopeAll\<rparr>),
                (Class 32 ''ValidationBehavior'', \<lparr>priority = Some 100, scope = Some ScopeAll\<rparr>),
                (Class 33 ''ExceptionHandlingBehavior'', \<lparr>priority = Some (- 100), scope = Some ScopeAll\<rparr>),
                (Class 34 ''AuditBehavior'', \<lparr>priority = None, scope = None\<rparr>)]"
  have n: "pipelineBehaviors newMediatorBus = []" by (simp add: newMediatorBus_def)
  have a: "map behaviorType (pipelineBehaviors (registerBehaviors ?regs newMediatorBus))
         = [Class 33 ''ExceptionHandlingBehavior'', Class 31 ''LoggingBehavior'',
            Class 34 ''AuditBehavior'', Class 32 ''ValidationBehavior'']"
    by (simp add: pipelineBehaviors_registerBehaviors_new [OF n] registration_def priorityOf_def)
  note t = C4_behaviors_sorted_stable [of ?regs 0]
  from a t show ?thesis by (simp only: Let_def) blast
qed

section \<open>Order of execution\<close>

lemma foldr_tracing:
  "foldr (invokeBehavior (tracingModuleRef v) request) bs (returningExecute v request) w
     = (Inr v, w @ map Enter (map behaviorType bs) @ [HandlerReturns v]
                 @ rev (map Exit (map behaviorType bs)))"
  by (induction bs arbitrary: w)
     (simp_all add: invokeBehavior_def tracingModuleRef_def tracingHandle_def returningExecute_def)

lemma buildPipeline_foldr:
  "buildPipeline bus m r request sc h
     = foldr (invokeBehavior m request) (applicableBehaviors bus r request sc) h"
  by (simp add: buildPipeline_def Let_def)

lemma executeHandler_tracing:
  "tracingModuleRef v c = Some inst \<Longrightarrow> executeHandler inst request = returningExecute v request"
  by (auto simp: tracingModuleRef_def executeHandler_def)

lemma query_tracing:
  fixes request :: "'p request" and v :: 'r
  shows "queryHandlers bus (className (requestClass request)) = Some h \<Longrightarrow>
   query bus (tracingModuleRef v) r request w
     = (Inr v, bus,
        w @ map Enter (map behaviorType (applicableBehaviors bus r request ScopeQuery))
          @ [HandlerReturns v]
          @ rev (map Exit (map behaviorType (applicableBehaviors bus r request ScopeQuery))))"
proof -
  assume h: "queryHandlers bus (className (requestClass request)) = Some h"
  obtain inst :: "('p, 'r event list, 'r) providerInstance"
    where i: "tracingModuleRef v h = Some inst"
    by (simp add: tracingModuleRef_def)
  have e: "executeHandler inst request = returningExecute v request"
    by (rule executeHandler_tracing [OF i])
  show ?thesis
    by (simp add: query_def h i e buildPipeline_foldr foldr_tracing)
qed

lemma send_tracing:
  fixes request :: "'p request" and v :: 'r
  shows "commandHandlers bus (className (requestClass request)) = Some h \<Longrightarrow>
   send bus (tracingModuleRef v) r request w
     = (Inr (), bus,
        w @ map Enter (map behaviorType (applicableBehaviors bus r request ScopeCommand))
          @ [HandlerReturns v]
          @ rev (map Exit (map behaviorType (applicableBehaviors bus r request ScopeCommand))))"
proof -
  assume h: "commandHandlers bus (className (requestClass request)) = Some h"
  obtain inst :: "('p, 'r event list, 'r) providerInstance"
    where i: "tracingModuleRef v h = Some inst"
    by (simp add: tracingModuleRef_def)
  have e: "executeHandler inst request = returningExecute v request"
    by (rule executeHandler_tracing [OF i])
  show ?thesis
    by (simp add: send_def h i e buildPipeline_foldr foldr_tracing)
qed

text \<open>
  C1. On a bus whose behaviors were registered by the calls \<open>regs\<close>, a dispatch
  (by \<open>query\<close>, or by \<open>send\<close>) with tracing behaviors enters the applicable
  behaviors in ascending priority order, behaviors of equal priority in registration
  order (\<open>sort_key\<close> is stable), then runs the handler, then leaves the behaviors in
  the reverse order; \<open>query\<close> resolves with the value of the handler. For
  behaviors of any kind, the chain \<open>buildPipeline\<close> returns is the nesting of the
  applicable behaviors in that order, the first outermost and the handler innermost.
\<close>

theorem C1_pipeline_order:
  "pipelineBehaviors bus0 = [] \<Longrightarrow>
   (queryHandlers bus0 (className (requestClass request)) = Some h \<longrightarrow>
      query (registerBehaviors regs bus0) (tracingModuleRef v) r request w
        = (Inr v, registerBehaviors regs bus0,
           w @ map Enter (map behaviorType (sort_key priorityOf
                 (filter (isApplicable r request ScopeQuery) (map registration regs))))
             @ [HandlerReturns v]
             @ rev (map Exit (map behaviorType (sort_key priorityOf
                 (filter (isApplicable r request ScopeQuery) (map registration regs)))))))
   \<and> (commandHandlers bus0 (className (requestClass request)) = Some h \<longrightarrow>
      send (registerBehaviors regs bus0) (tracingModuleRef v) r request w
        = (Inr (), registerBehaviors regs bus0,
           w @ map Enter (map behaviorType (sort_key priorityOf
                 (filter (isApplicable r request ScopeCommand) (map registration regs))))
             @ [HandlerReturns v]
             @ rev (map Exit (map behaviorType (sort_key priorityOf
                 (filter (isApplicable r request ScopeCommand) (map registration regs)))))))
   \<and> buildPipeline (registerBehaviors regs bus0) moduleRef r request sc handler
       = foldr (invokeBehavior moduleRef request)
           (sort_key priorityOf (filter (isApplicable r request sc) (map registration regs)))
           handler"
proof -
  assume e: "pipelineBehaviors bus0 = []"
  show ?thesis
  proof (intro conjI impI)
    show "buildPipeline (registerBehaviors regs bus0) moduleRef r request sc handler
       = foldr (invokeBehavior moduleRef request)
           (sort_key priorityOf (filter (isApplicable r request sc) (map registration regs)))
           handler"
      by (simp only: buildPipeline_foldr applicableBehaviors_registerBehaviors [OF e])
  next
    assume "queryHandlers bus0 (className (requestClass request)) = Some h"
    then have "queryHandlers (registerBehaviors regs bus0) (className (requestClass request)) = Some h"
      by simp
    from query_tracing [OF this]
    show "query (registerBehaviors regs bus0) (tracingModuleRef v) r request w
        = (Inr v, registerBehaviors regs bus0,
           w @ map Enter (map behaviorType (sort_key priorityOf
                 (filter (isApplicable r request ScopeQuery) (map registration regs))))
             @ [HandlerReturns v]
             @ rev (map Exit (map behaviorType (sort_key priorityOf
                 (filter (isApplicable r request ScopeQuery) (map registration regs))))))"
      by (simp only: applicableBehaviors_registerBehaviors [OF e])
  next
    assume "commandHandlers bus0 (className (requestClass request)) = Some h"
    then have "commandHandlers (registerBehaviors regs bus0) (className (requestClass request)) = Some h"
      by simp
    from send_tracing [OF this]
    show "send (registerBehaviors regs bus0) (tracingModuleRef v) r request w
        = (Inr (), registerBehaviors regs bus0,
           w @ map Enter (map behaviorType (sort_key priorityOf
                 (filter (isApplicable r request ScopeCommand) (map registration regs))))
             @ [HandlerReturns v]
             @ rev (map Exit (map behaviorType (sort_key priorityOf
                 (filter (isApplicable r request ScopeCommand) (map registration regs))))))"
      by (simp only: applicableBehaviors_registerBehaviors [OF e])
  qed
qed

text \<open>
  The scenario of C1: behaviors A (priority -100), B (0), C (100), all of scope
  \<open>all\<close>, and a query handler returning 42. Registered as A, B, C or as C, A, B, the
  trace is enter A, enter B, enter C, handler returns 42, exit C, exit B, exit A,
  and the call resolves with 42.
\<close>

theorem C1_pipeline_order_witness:
  "(let A = (Class 10 ''A'', \<lparr>priority = Some (- 100), scope = Some ScopeAll\<rparr>);
        B = (Class 11 ''B'', \<lparr>priority = Some 0, scope = Some ScopeAll\<rparr>);
        C = (Class 12 ''C'', \<lparr>priority = Some 100, scope = Some ScopeAll\<rparr>);
        bus0 = snd (registerCommandHandler (Class 22 ''Cmd'') (Class 23 ''CmdHandler'')
                 (snd (registerQueryHandler (Class 20 ''Q'') (Class 21 ''QHandler'')
                        newMediatorBus)));
        q = \<lparr>requestClass = Class 20 ''Q'', isObject = True, payload = ()\<rparr>;
        c = \<lparr>requestClass = Class 22 ''Cmd'', isObject = True, payload = ()\<rparr>;
        expected = [Enter (Class 10 ''A''), Enter (Class 11 ''B''), Enter (Class 12 ''C''),
                    HandlerReturns 42,
                    Exit (Class 12 ''C''), Exit (Class 11 ''B''), Exit (Class 10 ''A'')]
    in query (registerBehaviors [A, B, C] bus0) (tracingModuleRef (42::int)) noMetadata q []
         = (Inr 42, registerBehaviors [A, B, C] bus0, expected)
       \<and> query (registerBehaviors [C, A, B] bus0) (tracingModuleRef (42::int)) noMetadata q []
         = (Inr 42, registerBehaviors [C, A, B] bus0, expected)
       \<and> send (registerBehaviors [C, A, B] bus0) (tracingModuleRef (42::int)) noMetadata c []
         = (Inr (), registerBehaviors [C, A, B] bus0, expected))"
proof -
  let ?A = "(Class 10 ''A'', \<lparr>priority = Some (- 100), scope = Some ScopeAll\<rparr>)"
  let ?B = "(Class 11 ''B'', \<lparr>priority = Some 0, scope = Some ScopeAll\<rparr>)"
  let ?C = "(Class 12 ''C'', \<lparr>priority = Some 100, scope = Some ScopeAll\<rparr>)"
  let ?start = "snd (registerCommandHandler (Class 22 ''Cmd'') (Class 23 ''CmdHandler'')
                 (snd (registerQueryHandler (Class 20 ''Q'') (Class 21 ''QHandler'')
                        newMediatorBus)))"
  let ?q = "\<lparr>requestClass = Class 20 ''Q'', isObject = True, payload = ()\<rparr>"
  let ?c = "\<lparr>requestClass = Class 22 ''Cmd'', isObject = True, payload = ()\<rparr>"
  let ?expected = "[Enter (Class 10 ''A''), Enter (Class 11 ''B''), Enter (Class 12 ''C''),
                    HandlerReturns (42::int),
                    Exit (Class 12 ''C''), Exit (Class 11 ''B''), Exit (Class 10 ''A'')]"
  have e: "pipelineBehaviors ?start = []"
    by (simp add: registerCommandHandler_def registerQueryHandler_def newMediatorBus_def)
  have hq: "queryHandlers ?start (className (requestClass ?q)) = Some (Class 21 ''QHandler'')"
    by (simp add: registerCommandHandler_def registerQueryHandler_def newMediatorBus_def)
  have hc: "commandHandlers ?start (className (requestClass ?c)) = Some (Class 23 ''CmdHandler'')"
    by (simp add: registerCommandHandler_def registerQueryHandler_def newMediatorBus_def)
  have 1: "query (registerBehaviors [?A, ?B, ?C] ?start) (tracingModuleRef (42::int)) noMetadata ?q []
         = (Inr 42, registerBehaviors [?A, ?B, ?C] ?start, ?expected)"
    using hq
      C1_pipeline_order
        [OF e, of ?q "Class 21 ''QHandler''" "[?A, ?B, ?C]" "42::int" noMetadata "[]", THEN conjunct1]
    by (simp add: isApplicable_def scopeOf_def behaviorsToSkip_def noMetadata_def
          registration_def priorityOf_def)
  have 2: "query (registerBehaviors [?C, ?A, ?B] ?start) (tracingModuleRef (42::int)) noMetadata ?q []
         = (Inr 42, registerBehaviors [?C, ?A, ?B] ?start, ?expected)"
    using hq
      C1_pipeline_order
        [OF e, of ?q "Class 21 ''QHandler''" "[?C, ?A, ?B]" "42::int" noMetadata "[]", THEN conjunct1]
    by (simp add: isApplicable_def scopeOf_def behaviorsToSkip_def noMetadata_def
          registration_def priorityOf_def)
  have 3: "send (registerBehaviors [?C, ?A, ?B] ?start) (tracingModuleRef (42::int)) noMetadata ?c []
         = (Inr (), registerBehaviors [?C, ?A, ?B] ?start, ?expected)"
    using hc
      C1_pipeline_order
        [OF e, of ?c "Class 23 ''CmdHandler''" "[?C, ?A, ?B]" "42::int" noMetadata "[]",
         THEN conjunct2, THEN conjunct1]
    by (simp add: isApplicable_def scopeOf_def behaviorsToSkip_def noMetadata_def
          registration_def priorityOf_def)
  from 1 2 3 show ?thesis by (simp only: Let_def simp_thms)
qed

section \<open>Behaviors left out of the chain\<close>

text \<open>
  Two containers that differ only in the \<open>handle\<close> of one behavior class \<open>t\<close>
  give the same dispatch whenever \<open>t\<close> is not among the applicable behaviors: the
  chain never calls that \<open>handle\<close>. With tracing behaviors, \<open>enter t\<close> is in the
  trace exactly when a handler was found and \<open>t\<close> is applicable.
\<close>

lemma invokeBehavior_agree:
  "m1 (behaviorType rb) = m2 (behaviorType rb) \<Longrightarrow>
   invokeBehavior m1 request rb = invokeBehavior m2 request rb"
  by (rule ext) (simp add: invokeBehavior_def)

lemma foldr_invokeBehavior_agree:
  "(\<And>rb. rb \<in> set bs \<Longrightarrow> m1 (behaviorType rb) = m2 (behaviorType rb)) \<Longrightarrow>
   foldr (invokeBehavior m1 request) bs h = foldr (invokeBehavior m2 request) bs h"
proof (induction bs)
  case Nil
  show ?case by simp
next
  case (Cons b bs)
  have 1: "invokeBehavior m1 request b = invokeBehavior m2 request b"
    by (rule invokeBehavior_agree) (simp add: Cons.prems)
  have 2: "foldr (invokeBehavior m1 request) bs h = foldr (invokeBehavior m2 request) bs h"
    by (rule Cons.IH) (simp add: Cons.prems)
  show ?case by (simp add: 1 2)
qed

lemma buildPipeline_agree:
  assumes "\<And>c. c \<noteq> t \<Longrightarrow> m1 c = m2 c"
    and "t \<notin> behaviorType ` set (applicableBehaviors bus r request sc)"
  shows "buildPipeline bus m1 r request sc h = buildPipeline bus m2 r request sc h"
proof -
  have "\<And>rb. rb \<in> set (applicableBehaviors bus r request sc) \<Longrightarrow>
          m1 (behaviorType rb) = m2 (behaviorType rb)"
    using assms by (cases "behaviorType rb = t") (auto simp: image_iff)
  then have "foldr (invokeBehavior m1 request) (applicableBehaviors bus r request sc) h
           = foldr (invokeBehavior m2 request) (applicableBehaviors bus r request sc) h"
    by (rule foldr_invokeBehavior_agree)
  then show ?thesis
    by (simp only: buildPipeline_foldr)
qed

lemma executeHandler_agree:
  assumes "\<And>c. c \<noteq> t \<Longrightarrow> m1 c = m2 c"
    and "map_option execute (m1 t) = map_option execute (m2 t)"
    and "m1 c = Some i1"
  shows "\<exists>i2. m2 c = Some i2 \<and> executeHandler i1 request = executeHandler i2 request"
proof (cases "c = t")
  case True
  with assms(2,3) obtain i2 where "m2 c = Some i2" "execute i1 = execute i2"
    by (cases "m2 t") auto
  then show ?thesis by (auto simp: executeHandler_def)
next
  case False
  with assms(1,3) show ?thesis by auto
qed

lemma resolve_None_agree:
  assumes "\<And>c. c \<noteq> t \<Longrightarrow> m1 c = m2 c"
    and "map_option execute (m1 t) = map_option execute (m2 t)"
    and "m1 c = None"
  shows "m2 c = None"
  using assms by (cases "c = t") auto

lemma send_agree:
  assumes a: "\<And>c. c \<noteq> t \<Longrightarrow> m1 c = m2 c"
    and e: "map_option execute (m1 t) = map_option execute (m2 t)"
    and n: "t \<notin> behaviorType ` set (applicableBehaviors bus r request ScopeCommand)"
  shows "send bus m1 r request w = send bus m2 r request w"
proof (cases "commandHandlers bus (className (requestClass request))")
  case None
  then show ?thesis by (simp add: send_def)
next
  case (Some handlerType)
  show ?thesis
  proof (cases "m1 handlerType")
    case None
    from resolve_None_agree [OF a e None] have "m2 handlerType = None" by simp
    with None Some show ?thesis by (simp add: send_def)
  next
    case (Some i1)
    from executeHandler_agree [OF a e Some, of request]
    obtain i2 where i2: "m2 handlerType = Some i2"
      "executeHandler i1 request = executeHandler i2 request" by auto
    have "buildPipeline bus m1 r request ScopeCommand (executeHandler i1 request)
        = buildPipeline bus m2 r request ScopeCommand (executeHandler i2 request)"
      using buildPipeline_agree [OF a n] i2(2) by simp
    with Some i2 \<open>commandHandlers bus (className (requestClass request)) = Some handlerType\<close>
    show ?thesis by (simp add: send_def)
  qed
qed

lemma query_agree:
  assumes a: "\<And>c. c \<noteq> t \<Longrightarrow> m1 c = m2 c"
    and e: "map_option execute (m1 t) = map_option execute (m2 t)"
    and n: "t \<notin> behaviorType ` set (applicableBehaviors bus r request ScopeQuery)"
  shows "query bus m1 r request w = query bus m2 r request w"
proof (cases "queryHandlers bus (className (requestClass request))")
  case None
  then show ?thesis by (simp add: query_def)
next
  case (Some handlerType)
  show ?thesis
  proof (cases "m1 handlerType")
    case None
    from resolve_None_agree [OF a e None] have "m2 handlerType = None" by simp
    with None Some show ?thesis by (simp add: query_def)
  next
    case (Some i1)
    from executeHandler_agree [OF a e Some, of request]
    obtain i2 where i2: "m2 handlerType = Some i2"
      "executeHandler i1 request = executeHandler i2 request" by auto
    have "buildPipeline bus m1 r request ScopeQuery (executeHandler i1 request)
        = buildPipeline bus m2 r request ScopeQuery (executeHandler i2 request)"
      using buildPipeline_agree [OF a n] i2(2) by simp
    with Some i2 \<open>queryHandlers bus (className (requestClass request)) = Some handlerType\<close>
    show ?thesis by (simp add: query_def)
  qed
qed

lemma send_trace_Enter:
  fixes request :: "'p request" and v :: 'r
  shows "Enter t \<in> set (snd (snd (send bus (tracingModuleRef v) r request [])))
   \<longleftrightarrow> commandHandlers bus (className (requestClass request)) \<noteq> None
       \<and> t \<in> behaviorType ` set (applicableBehaviors bus r request ScopeCommand)"
proof (cases "commandHandlers bus (className (requestClass request))")
  case None
  then show ?thesis by (simp add: send_def)
next
  case (Some h)
  show ?thesis by (auto simp: send_tracing [OF Some] Some)
qed

lemma query_trace_Enter:
  fixes request :: "'p request" and v :: 'r
  shows "Enter t \<in> set (snd (snd (query bus (tracingModuleRef v) r request [])))
   \<longleftrightarrow> queryHandlers bus (className (requestClass request)) \<noteq> None
       \<and> t \<in> behaviorType ` set (applicableBehaviors bus r request ScopeQuery)"
proof (cases "queryHandlers bus (className (requestClass request))")
  case None
  then show ?thesis by (simp add: query_def)
next
  case (Some h)
  show ?thesis by (auto simp: query_tracing [OF Some] Some)
qed

lemma skipped_not_applicable:
  "t \<in> set (behaviorsToSkip r request) \<Longrightarrow>
   t \<notin> behaviorType ` set (applicableBehaviors bus r request sc)"
  by (auto simp: applicableBehaviors_def isApplicable_def list_ex_iff)

subsection \<open>The skip list\<close>

text \<open>
  C5. When the class of the request carries a skip list (\<open>SkipBehavior\<close>,
  \<open>SkipBehaviors\<close>) that names the behavior class \<open>t\<close>, no dispatch of the request
  invokes the \<open>handle\<close> of \<open>t\<close>, however \<open>t\<close> is registered: \<open>t\<close> is not among
  the applicable behaviors of either namespace, the trace of a dispatch has no
  \<open>enter t\<close>, and the dispatch is the same whatever \<open>handle\<close> the container gives
  \<open>t\<close>.
\<close>

theorem C5_skipped_behavior_never_invoked:
  fixes request :: "'p request" and v :: 'r and m1 m2 :: "('p, 'w, 'r) moduleRef"
  assumes "skipBehaviorsMetadata r (requestClass request) = Some skips" and "t \<in> set skips"
  shows "t \<notin> behaviorType ` set (applicableBehaviors bus r request sc)
    \<and> Enter t \<notin> set (snd (snd (send bus (tracingModuleRef v) r request [])))
    \<and> Enter t \<notin> set (snd (snd (query bus (tracingModuleRef v) r request [])))
    \<and> ((\<forall>c. c \<noteq> t \<longrightarrow> m1 c = m2 c) \<and> map_option execute (m1 t) = map_option execute (m2 t)
        \<longrightarrow> send bus m1 r request w = send bus m2 r request w
            \<and> query bus m1 r request w = query bus m2 r request w)"
proof -
  have s: "t \<in> set (behaviorsToSkip r request)"
    using assms by (simp add: behaviorsToSkip_def)
  have n: "\<And>sc. t \<notin> behaviorType ` set (applicableBehaviors bus r request sc)"
    by (rule skipped_not_applicable [OF s])
  have 1: "Enter t \<notin> set (snd (snd (send bus (tracingModuleRef v) r request [])))"
    using n [of ScopeCommand] by (simp only: send_trace_Enter) simp
  have 2: "Enter t \<notin> set (snd (snd (query bus (tracingModuleRef v) r request [])))"
    using n [of ScopeQuery] by (simp only: query_trace_Enter) simp
  have 3: "(\<forall>c. c \<noteq> t \<longrightarrow> m1 c = m2 c) \<and> map_option execute (m1 t) = map_option execute (m2 t)
        \<longrightarrow> send bus m1 r request w = send bus m2 r request w
            \<and> query bus m1 r request w = query bus m2 r request w"
  proof (intro impI conjI)
    assume a: "(\<forall>c. c \<noteq> t \<longrightarrow> m1 c = m2 c) \<and> map_option execute (m1 t) = map_option execute (m2 t)"
    then have a1: "\<And>c. c \<noteq> t \<Longrightarrow> m1 c = m2 c"
      and a2: "map_option execute (m1 t) = map_option execute (m2 t)" by simp_all
    show "send bus m1 r request w = send bus m2 r request w"
      by (rule send_agree [of t m1 m2 bus r request w, OF a1 a2 n])
    show "query bus m1 r request w = query bus m2 r request w"
      by (rule query_agree [of t m1 m2 bus r request w, OF a1 a2 n])
  qed
  from n [of sc] 1 2 3 show ?thesis by (intro conjI)
qed

text \<open>
  The scenario of C5: logging and performance behaviors are registered with scope
  \<open>all\<close>; \<open>HighFrequencyCommand\<close> is decorated with
  \<open>@SkipBehavior(PerformanceBehavior)\<close>. Sending it enters the logging behavior only,
  also when the performance behavior would throw.
\<close>

theorem C5_skipped_behavior_never_invoked_witness:
  "(let LoggingBehavior = Class 31 ''LoggingBehavior'';
        PerformanceBehavior = Class 35 ''PerformanceBehavior'';
        HighFrequencyCommand = Class 8 ''HighFrequencyCommand'';
        bus = registerBehaviors
                [(LoggingBehavior, \<lparr>priority = Some 0, scope = Some ScopeAll\<rparr>),
                 (PerformanceBehavior, \<lparr>priority = Some 10, scope = Some ScopeAll\<rparr>)]
                (snd (registerCommandHandler HighFrequencyCommand (Class 9 ''HighFrequencyHandler'')
                       newMediatorBus));
        r = SkipBehavior (Inr PerformanceBehavior) HighFrequencyCommand noMetadata;
        request = \<lparr>requestClass = HighFrequencyCommand, isObject = True, payload = ()\<rparr>;
        failing = (tracingModuleRef ())
                    (PerformanceBehavior :=
                       Some \<lparr>execute = Some (returningExecute ()),
                             handle = Some (\<lambda>request next w. (Inl (Error ''boom''), w))\<rparr>)
    in map behaviorType (pipelineBehaviors bus) = [LoggingBehavior, PerformanceBehavior]
       \<and> PerformanceBehavior \<notin> behaviorType ` set (applicableBehaviors bus r request ScopeCommand)
       \<and> send bus (tracingModuleRef ()) r request []
           = (Inr (), bus, [Enter LoggingBehavior, HandlerReturns (), Exit LoggingBehavior])
       \<and> Enter PerformanceBehavior \<notin> set (snd (snd (send bus (tracingModuleRef ()) r request [])))
       \<and> send bus failing r request [] = send bus (tracingModuleRef ()) r request [])"
proof -
  let ?L = "Class 31 ''LoggingBehavior''"
  let ?P = "Class 35 ''PerformanceBehavior''"
  let ?H = "Class 8 ''HighFrequencyCommand''"
  let ?regs = "[(?L, \<lparr>priority = Some 0, scope = Some ScopeAll\<rparr>),
                (?P, \<lparr>priority = Some 10, scope = Some ScopeAll\<rparr>)]"
  let ?start = "snd (registerCommandHandler ?H (Class 9 ''HighFrequencyHandler'') newMediatorBus)"
  let ?bus = "registerBehaviors ?regs ?start"
  let ?r = "SkipBehavior (Inr ?P) ?H noMetadata"
  let ?request = "\<lparr>requestClass = ?H, isObject = True, payload = ()\<rparr>"
  let ?tracing = "tracingModuleRef () :: (unit, unit event list, unit) moduleRef"
  let ?failing = "?tracing
                    (?P := Some \<lparr>execute = Some (returningExecute ()),
                                 handle = Some (\<lambda>request next w. (Inl (Error ''boom''), w))\<rparr>)"
  have e: "pipelineBehaviors ?start = []"
    by (simp add: registerCommandHandler_def newMediatorBus_def)
  have h: "commandHandlers ?bus (className (requestClass ?request))
             = Some (Class 9 ''HighFrequencyHandler'')"
    by (simp add: registerCommandHandler_def newMediatorBus_def)
  have m: "skipBehaviorsMetadata ?r (requestClass ?request) = Some [?P]"
    by (simp add: SkipBehavior_def)
  have p: "?P \<in> set [?P]" by simp
  have a: "\<forall>c. c \<noteq> ?P \<longrightarrow> ?failing c = ?tracing c" by simp
  have x: "map_option execute (?failing ?P) = map_option execute (?tracing ?P)"
    by (simp add: tracingModuleRef_def)
  have 1: "map behaviorType (pipelineBehaviors ?bus) = [?L, ?P]"
    by (simp add: pipelineBehaviors_registerBehaviors_new [OF e] registration_def priorityOf_def)
  have 3: "send ?bus ?tracing ?r ?request [] = (Inr (), ?bus, [Enter ?L, HandlerReturns (), Exit ?L])"
    by (simp add: send_tracing [OF h] applicableBehaviors_registerBehaviors [OF e]
          isApplicable_def scopeOf_def behaviorsToSkip_def SkipBehavior_def noMetadata_def
          registration_def priorityOf_def)
  note t = C5_skipped_behavior_never_invoked
             [OF m p, of ?bus ScopeCommand "()" ?failing ?tracing "[]"]
  from t a x have 5: "send ?bus ?failing ?r ?request [] = send ?bus ?tracing ?r ?request []"
    by blast
  from t have 2: "?P \<notin> behaviorType ` set (applicableBehaviors ?bus ?r ?request ScopeCommand)"
    and 4: "Enter ?P \<notin> set (snd (snd (send ?bus ?tracing ?r ?request [])))"
    by blast+
  from 1 2 3 4 5 show ?thesis by (simp only: Let_def simp_thms)
qed

subsection \<open>The scope\<close>

lemma scope_query_not_command:
  "scope (options b) = Some ScopeQuery \<Longrightarrow> b \<notin> set (applicableBehaviors bus r request ScopeCommand)"
  by (simp add: applicableBehaviors_def isApplicable_def scopeOf_def)

lemma scope_command_not_query:
  "scope (options b) = Some ScopeCommand \<Longrightarrow> b \<notin> set (applicableBehaviors bus r request ScopeQuery)"
  by (simp add: applicableBehaviors_def isApplicable_def scopeOf_def)

lemma scope_all_applicable:
  "b \<in> set (pipelineBehaviors bus) \<Longrightarrow> scopeOf b = ScopeAll \<Longrightarrow>
   behaviorType b \<notin> set (behaviorsToSkip r request) \<Longrightarrow>
   b \<in> set (applicableBehaviors bus r request sc)"
  by (simp add: applicableBehaviors_def isApplicable_def list_ex_iff)

lemma applicable_registered:
  "b \<in> set (applicableBehaviors bus r request sc) \<Longrightarrow> b \<in> set (pipelineBehaviors bus)"
  by (simp add: applicableBehaviors_def)

text \<open>
  C6. A behavior registered with scope \<open>'query'\<close> is not applicable to a \<open>send\<close>,
  one registered with scope \<open>'command'\<close> is not applicable to a \<open>query\<close>, and a
  registered behavior of scope \<open>'all'\<close> (also by default) that the request does not
  skip is applicable to both. So when every registration of a class \<open>t\<close> has scope
  \<open>'query'\<close>, no \<open>send\<close> invokes the \<open>handle\<close> of \<open>t\<close> (no \<open>enter t\<close> in the
  trace, and the dispatch does not depend on that \<open>handle\<close>); likewise for scope
  \<open>'command'\<close> and \<open>query\<close>.
\<close>

theorem C6_scope_filter:
  fixes request :: "'p request" and v :: 'r and m1 m2 :: "('p, 'w, 'r) moduleRef"
  shows "(scope (options b) = Some ScopeQuery \<longrightarrow>
            b \<notin> set (applicableBehaviors bus r request ScopeCommand))
    \<and> (scope (options b) = Some ScopeCommand \<longrightarrow>
            b \<notin> set (applicableBehaviors bus r request ScopeQuery))
    \<and> (b \<in> set (pipelineBehaviors bus) \<and> scopeOf b = ScopeAll
          \<and> behaviorType b \<notin> set (behaviorsToSkip r request) \<longrightarrow>
            b \<in> set (applicableBehaviors bus r request ScopeCommand)
            \<and> b \<in> set (applicableBehaviors bus r request ScopeQuery))
    \<and> ((\<forall>b \<in> set (pipelineBehaviors bus). behaviorType b = t \<longrightarrow> scope (options b) = Some ScopeQuery) \<longrightarrow>
          Enter t \<notin> set (snd (snd (send bus (tracingModuleRef v) r request [])))
          \<and> ((\<forall>c. c \<noteq> t \<longrightarrow> m1 c = m2 c) \<and> map_option execute (m1 t) = map_option execute (m2 t)
               \<longrightarrow> send bus m1 r request w = send bus m2 r request w))
    \<and> ((\<forall>b \<in> set (pipelineBehaviors bus). behaviorType b = t \<longrightarrow> scope (options b) = Some ScopeCommand) \<longrightarrow>
          Enter t \<notin> set (snd (snd (query bus (tracingModuleRef v) r request [])))
          \<and> ((\<forall>c. c \<noteq> t \<longrightarrow> m1 c = m2 c) \<and> map_option execute (m1 t) = map_option execute (m2 t)
               \<longrightarrow> query bus m1 r request w = query bus m2 r request w))"
proof -
  have 1: "scope (options b) = Some ScopeQuery \<longrightarrow>
            b \<notin> set (applicableBehaviors bus r request ScopeCommand)"
    by (simp add: scope_query_not_command)
  have 2: "scope (options b) = Some ScopeCommand \<longrightarrow>
            b \<notin> set (applicableBehaviors bus r request ScopeQuery)"
    by (simp add: scope_command_not_query)
  have 3: "b \<in> set (pipelineBehaviors bus) \<and> scopeOf b = ScopeAll
          \<and> behaviorType b \<notin> set (behaviorsToSkip r request) \<longrightarrow>
            b \<in> set (applicableBehaviors bus r request ScopeCommand)
            \<and> b \<in> set (applicableBehaviors bus r request ScopeQuery)"
    by (simp add: scope_all_applicable)
  have 4: "(\<forall>b \<in> set (pipelineBehaviors bus). behaviorType b = t \<longrightarrow> scope (options b) = Some ScopeQuery) \<longrightarrow>
          Enter t \<notin> set (snd (snd (send bus (tracingModuleRef v) r request [])))
          \<and> ((\<forall>c. c \<noteq> t \<longrightarrow> m1 c = m2 c) \<and> map_option execute (m1 t) = map_option execute (m2 t)
               \<longrightarrow> send bus m1 r request w = send bus m2 r request w)"
  proof (intro impI conjI)
    assume q: "\<forall>b \<in> set (pipelineBehaviors bus). behaviorType b = t \<longrightarrow> scope (options b) = Some ScopeQuery"
    have n: "t \<notin> behaviorType ` set (applicableBehaviors bus r request ScopeCommand)"
    proof
      assume "t \<in> behaviorType ` set (applicableBehaviors bus r request ScopeCommand)"
      then obtain b' where b': "b' \<in> set (applicableBehaviors bus r request ScopeCommand)"
        "behaviorType b' = t" by auto
      from applicable_registered [OF b'(1)] q b'(2) have "scope (options b') = Some ScopeQuery"
        by simp
      from scope_query_not_command [OF this, of bus r request] b'(1) show False by simp
    qed
    show "Enter t \<notin> set (snd (snd (send bus (tracingModuleRef v) r request [])))"
      using n by (simp only: send_trace_Enter) simp
    assume a: "(\<forall>c. c \<noteq> t \<longrightarrow> m1 c = m2 c) \<and> map_option execute (m1 t) = map_option execute (m2 t)"
    then have a1: "\<And>c. c \<noteq> t \<Longrightarrow> m1 c = m2 c"
      and a2: "map_option execute (m1 t) = map_option execute (m2 t)" by simp_all
    show "send bus m1 r request w = send bus m2 r request w"
      by (rule send_agree [of t m1 m2 bus r request w, OF a1 a2 n])
  qed
  have 5: "(\<forall>b \<in> set (pipelineBehaviors bus). behaviorType b = t \<longrightarrow> scope (options b) = Some ScopeCommand) \<longrightarrow>
          Enter t \<notin> set (snd (snd (query bus (tracingModuleRef v) r request [])))
          \<and> ((\<forall>c. c \<noteq> t \<longrightarrow> m1 c = m2 c) \<and> map_option execute (m1 t) = map_option execute (m2 t)
               \<longrightarrow> query bus m1 r request w = query bus m2 r request w)"
  proof (intro impI conjI)
    assume q: "\<forall>b \<in> set (pipelineBehaviors bus). behaviorType b = t \<longrightarrow> scope (options b) = Some ScopeCommand"
    have n: "t \<notin> behaviorType ` set (applicableBehaviors bus r request ScopeQuery)"
    proof
      assume "t \<in> behaviorType ` set (applicableBehaviors bus r request ScopeQuery)"
      then obtain b' where b': "b' \<in> set (applicableBehaviors bus r request ScopeQuery)"
        "behaviorType b' = t" by auto
      from applicable_registered [OF b'(1)] q b'(2) have "scope (options b') = Some ScopeCommand"
        by simp
      from scope_command_not_query [OF this, of bus r request] b'(1) show False by simp
    qed
    show "Enter t \<notin> set (snd (snd (query bus (tracingModuleRef v) r request [])))"
      using n by (simp only: query_trace_Enter) simp
    assume a: "(\<forall>c. c \<noteq> t \<longrightarrow> m1 c = m2 c) \<and> map_option execute (m1 t) = map_option execute (m2 t)"
    then have a1: "\<And>c. c \<noteq> t \<Longrightarrow> m1 c = m2 c"
      and a2: "map_option execute (m1 t) = map_option execute (m2 t)" by simp_all
    show "query bus m1 r request w = query bus m2 r request w"
      by (rule query_agree [of t m1 m2 bus r request w, OF a1 a2 n])
  qed
  from 1 2 3 4 5 show ?thesis by (intro conjI)
qed

text \<open>
  The scenario of C6: logging (scope \<open>all\<close>), caching (scope \<open>query\<close>) and audit
  logging (scope \<open>command\<close>). A command passes logging and audit logging, a query
  logging and caching.
\<close>

theorem C6_scope_filter_witness:
  "(let LoggingBehavior = Class 31 ''LoggingBehavior'';
        CachingBehavior = Class 36 ''CachingBehavior'';
        AuditLoggingBehavior = Class 37 ''AuditLoggingBehavior'';
        bus = registerBehaviors
                [(LoggingBehavior, \<lparr>priority = Some 0, scope = Some ScopeAll\<rparr>),
                 (CachingBehavior, \<lparr>priority = Some 5, scope = Some ScopeQuery\<rparr>),
                 (AuditLoggingBehavior, \<lparr>priority = Some 50, scope = Some ScopeCommand\<rparr>)]
                (snd (registerQueryHandler (Class 4 ''GetUserQuery'') (Class 5 ''GetUserHandler'')
                  (snd (registerCommandHandler (Class 41 ''CreateUserCommand'')
                         (Class 2 ''CreateUserHandler'') newMediatorBus))));
        command = \<lparr>requestClass = Class 41 ''CreateUserCommand'', isObject = True, payload = ()\<rparr>;
        question = \<lparr>requestClass = Class 4 ''GetUserQuery'', isObject = True, payload = ()\<rparr>;
        failing = (\<lambda>t. (tracingModuleRef (7::int))
                    (t := Some \<lparr>execute = Some (returningExecute 7),
                               handle = Some (\<lambda>request next w. (Inl (Error ''boom''), w))\<rparr>))
    in send bus (tracingModuleRef (7::int)) noMetadata command []
         = (Inr (), bus,
            [Enter LoggingBehavior, Enter AuditLoggingBehavior, HandlerReturns 7,
             Exit AuditLoggingBehavior, Exit LoggingBehavior])
       \<and> query bus (tracingModuleRef (7::int)) noMetadata question []
         = (Inr 7, bus,
            [Enter LoggingBehavior, Enter CachingBehavior, HandlerReturns 7,
             Exit CachingBehavior, Exit LoggingBehavior])
       \<and> Enter CachingBehavior
            \<notin> set (snd (snd (send bus (tracingModuleRef (7::int)) noMetadata command [])))
       \<and> Enter AuditLoggingBehavior
            \<notin> set (snd (snd (query bus (tracingModuleRef (7::int)) noMetadata question [])))
       \<and> send bus (failing CachingBehavior) noMetadata command []
           = send bus (tracingModuleRef (7::int)) noMetadata command []
       \<and> query bus (failing AuditLoggingBehavior) noMetadata question []
           = query bus (tracingModuleRef (7::int)) noMetadata question [])"
proof -
  let ?L = "Class 31 ''LoggingBehavior''"
  let ?C = "Class 36 ''CachingBehavior''"
  let ?A = "Class 37 ''AuditLoggingBehavior''"
  let ?regs = "[(?L, \<lparr>priority = Some 0, scope = Some ScopeAll\<rparr>),
                (?C, \<lparr>priority = Some 5, scope = Some ScopeQuery\<rparr>),
                (?A, \<lparr>priority = Some 50, scope = Some ScopeCommand\<rparr>)]"
  let ?start = "snd (registerQueryHandler (Class 4 ''GetUserQuery'') (Class 5 ''GetUserHandler'')
                  (snd (registerCommandHandler (Class 41 ''CreateUserCommand'')
                         (Class 2 ''CreateUserHandler'') newMediatorBus)))"
  let ?bus = "registerBehaviors ?regs ?start"
  let ?command = "\<lparr>requestClass = Class 41 ''CreateUserCommand'', isObject = True, payload = ()\<rparr>"
  let ?question = "\<lparr>requestClass = Class 4 ''GetUserQuery'', isObject = True, payload = ()\<rparr>"
  let ?tracing = "tracingModuleRef (7::int) :: (unit, int event list, int) moduleRef"
  let ?failing = "\<lambda>t. ?tracing
                    (t := Some \<lparr>execute = Some (returningExecute 7),
                               handle = Some (\<lambda>request next w. (Inl (Error ''boom''), w))\<rparr>)"
  have e: "pipelineBehaviors ?start = []"
    by (simp add: registerCommandHandler_def registerQueryHandler_def newMediatorBus_def)
  have hc: "commandHandlers ?bus (className (requestClass ?command))
             = Some (Class 2 ''CreateUserHandler'')"
    by (simp add: registerCommandHandler_def registerQueryHandler_def newMediatorBus_def)
  have hq: "queryHandlers ?bus (className (requestClass ?question))
             = Some (Class 5 ''GetUserHandler'')"
    by (simp add: registerCommandHandler_def registerQueryHandler_def newMediatorBus_def)
  have l: "pipelineBehaviors ?bus = map registration ?regs"
    by (simp add: pipelineBehaviors_registerBehaviors_new [OF e] registration_def priorityOf_def)
  have 1: "send ?bus ?tracing noMetadata ?command []
         = (Inr (), ?bus, [Enter ?L, Enter ?A, HandlerReturns 7, Exit ?A, Exit ?L])"
    by (simp add: send_tracing [OF hc] applicableBehaviors_registerBehaviors [OF e]
          isApplicable_def scopeOf_def behaviorsToSkip_def noMetadata_def
          registration_def priorityOf_def)
  have 2: "query ?bus ?tracing noMetadata ?question []
         = (Inr 7, ?bus, [Enter ?L, Enter ?C, HandlerReturns 7, Exit ?C, Exit ?L])"
    by (simp add: query_tracing [OF hq] applicableBehaviors_registerBehaviors [OF e]
          isApplicable_def scopeOf_def behaviorsToSkip_def noMetadata_def
          registration_def priorityOf_def)
  have qs: "\<forall>b \<in> set (pipelineBehaviors ?bus). behaviorType b = ?C \<longrightarrow> scope (options b) = Some ScopeQuery"
    by (simp add: l registration_def)
  have cs: "\<forall>b \<in> set (pipelineBehaviors ?bus). behaviorType b = ?A \<longrightarrow> scope (options b) = Some ScopeCommand"
    by (simp add: l registration_def)
  have ac: "(\<forall>c. c \<noteq> ?C \<longrightarrow> ?failing ?C c = ?tracing c)
            \<and> map_option execute (?failing ?C ?C) = map_option execute (?tracing ?C)"
    by (simp add: tracingModuleRef_def)
  have aa: "(\<forall>c. c \<noteq> ?A \<longrightarrow> ?failing ?A c = ?tracing c)
            \<and> map_option execute (?failing ?A ?A) = map_option execute (?tracing ?A)"
    by (simp add: tracingModuleRef_def)
  note tc = C6_scope_filter
              [of "registration (?C, \<lparr>priority = Some 5, scope = Some ScopeQuery\<rparr>)"
                  ?bus noMetadata ?command ?C 7 "?failing ?C" ?tracing "[]"]
  note ta = C6_scope_filter
              [of "registration (?A, \<lparr>priority = Some 50, scope = Some ScopeCommand\<rparr>)"
                  ?bus noMetadata ?question ?A 7 "?failing ?A" ?tracing "[]"]
  from tc qs ac have 3: "Enter ?C \<notin> set (snd (snd (send ?bus ?tracing noMetadata ?command [])))"
    and 5: "send ?bus (?failing ?C) noMetadata ?command [] = send ?bus ?tracing noMetadata ?command []"
    by blast+
  from ta cs aa have 4: "Enter ?A \<notin> set (snd (snd (query ?bus ?tracing noMetadata ?question [])))"
    and 6: "query ?bus (?failing ?A) noMetadata ?question [] = query ?bus ?tracing noMetadata ?question []"
    by blast+
  from 1 2 3 4 5 6 show ?thesis by (simp only: Let_def simp_thms)
qed

subsection \<open>A declared target type\<close>

text \<open>
  C2. The documentation of \<open>@Handle()\<close> says that a behavior whose \<open>handle\<close> is
  decorated runs only for requests of the type of its first parameter.
  \<open>buildPipeline\<close> filters by scope and skip list only and never reads that type
  (the applicable behaviors are the same whatever types are declared):
  \<open>CreateUserValidationBehavior\<close> (scope \<open>command\<close>, declared for
  \<open>CreateUserCommand\<close>) is invoked when a \<open>DeleteUserCommand\<close> is sent.
\<close>

theorem C2_target_type_is_not_checked:
  "applicableBehaviors anyBus (anyReflector\<lparr>handleParamType := declared\<rparr>) anyRequest sc
     = applicableBehaviors anyBus anyReflector anyRequest sc
   \<and> (let CreateUserCommand = Class 41 ''CreateUserCommand'';
        DeleteUserCommand = Class 6 ''DeleteUserCommand'';
        CreateUserValidationBehavior = Class 40 ''CreateUserValidationBehavior'';
        r = noMetadata\<lparr>handleParamType :=
              (\<lambda>c. if c = CreateUserValidationBehavior then Some CreateUserCommand else None)\<rparr>;
        bus = registerBehaviors
                [(CreateUserValidationBehavior, \<lparr>priority = Some 95, scope = Some ScopeCommand\<rparr>)]
                (snd (registerCommandHandler DeleteUserCommand (Class 7 ''DeleteUserHandler'')
                       newMediatorBus));
        request = \<lparr>requestClass = DeleteUserCommand, isObject = True, payload = ()\<rparr>
    in handleParamType r CreateUserValidationBehavior = Some CreateUserCommand
       \<and> requestClass request \<noteq> CreateUserCommand
       \<and> send bus (tracingModuleRef ()) r request []
           = (Inr (), bus,
              [Enter CreateUserValidationBehavior, HandlerReturns (),
               Exit CreateUserValidationBehavior]))"
proof -
  let ?start = "snd (registerCommandHandler (Class 6 ''DeleteUserCommand'')
                 (Class 7 ''DeleteUserHandler'') newMediatorBus)"
  let ?regs = "[(Class 40 ''CreateUserValidationBehavior'',
                 \<lparr>priority = Some 95, scope = Some ScopeCommand\<rparr>)]"
  let ?request = "\<lparr>requestClass = Class 6 ''DeleteUserCommand'', isObject = True, payload = ()\<rparr>"
  have e: "pipelineBehaviors ?start = []"
    by (simp add: registerCommandHandler_def newMediatorBus_def)
  have h: "commandHandlers (registerBehaviors ?regs ?start) (className (requestClass ?request))
             = Some (Class 7 ''DeleteUserHandler'')"
    by (simp add: registerCommandHandler_def newMediatorBus_def)
  have indifferent:
    "applicableBehaviors anyBus (anyReflector\<lparr>handleParamType := declared\<rparr>) anyRequest sc
       = applicableBehaviors anyBus anyReflector anyRequest sc"
  proof -
    have "isApplicable (anyReflector\<lparr>handleParamType := declared\<rparr>) anyRequest sc
            = isApplicable anyReflector anyRequest sc"
      by (rule ext) (simp add: isApplicable_def behaviorsToSkip_def)
    then show ?thesis by (simp add: applicableBehaviors_def)
  qed
  have scenario: "send (registerBehaviors ?regs ?start) (tracingModuleRef ())
          (noMetadata\<lparr>handleParamType :=
              (\<lambda>c. if c = Class 40 ''CreateUserValidationBehavior''
                    then Some (Class 41 ''CreateUserCommand'') else None)\<rparr>) ?request []
        = (Inr (), registerBehaviors ?regs ?start,
           [Enter (Class 40 ''CreateUserValidationBehavior''), HandlerReturns (),
            Exit (Class 40 ''CreateUserValidationBehavior'')])"
    by (simp add: send_tracing [OF h] applicableBehaviors_registerBehaviors [OF e]
          isApplicable_def scopeOf_def behaviorsToSkip_def noMetadata_def registration_def)
  from indifferent scenario show ?thesis
    by (simp add: Let_def)
qed

section \<open>Registering a behavior class twice\<close>

lemma mset_pipelineBehaviors_register:
  "mset (pipelineBehaviors (snd (registerPipelineBehavior t opts bus)))
     = add_mset (registration (t, opts)) (mset (pipelineBehaviors bus))"
  by (simp add: pipelineBehaviors_register)

lemma commandHandlers_register [simp]:
  "commandHandlers (snd (registerPipelineBehavior t opts bus)) = commandHandlers bus"
  by (simp add: registerPipelineBehavior_def Let_def)

lemma queryHandlers_register [simp]:
  "queryHandlers (snd (registerPipelineBehavior t opts bus)) = queryHandlers bus"
  by (simp add: registerPipelineBehavior_def Let_def)

lemma count_behaviorType:
  "count_list (map behaviorType xs) t = count (image_mset behaviorType (mset xs)) t"
  by (simp flip: count_mset)

lemma count_registered_twice:
  "count_list (map behaviorType (pipelineBehaviors
      (snd (registerPipelineBehavior t opts (snd (registerPipelineBehavior t opts bus)))))) t
   = count_list (map behaviorType (pipelineBehaviors bus)) t + 2"
  by (simp add: count_behaviorType mset_pipelineBehaviors_register registration_def)

lemma count_applicable_twice:
  "isApplicable r request sc (registration (t, opts)) \<Longrightarrow>
   count_list (map behaviorType (applicableBehaviors
      (snd (registerPipelineBehavior t opts (snd (registerPipelineBehavior t opts bus))))
      r request sc)) t
   = count_list (map behaviorType (applicableBehaviors bus r request sc)) t + 2"
  by (simp add: count_behaviorType applicableBehaviors_def mset_pipelineBehaviors_register
        registration_def)

text \<open>
  C10. \<open>registerPipelineBehavior\<close> has no duplicate check. Called twice with the same
  class and options it returns normally both times, and the class then stands two
  more times in the behavior list than before. For a dispatch to which the
  registration is applicable, the class stands two more times among the applicable
  behaviors, and with tracing behaviors the trace enters every applicable entry on
  the way in and leaves it on the way out: the two invocations are nested.
\<close>

theorem C10_behavior_registered_twice:
  fixes request :: "'p request" and v :: 'r
  shows "(let bus1 = snd (registerPipelineBehavior t opts bus);
              bus2 = snd (registerPipelineBehavior t opts bus1)
          in fst (registerPipelineBehavior t opts bus) = Inr ()
             \<and> fst (registerPipelineBehavior t opts bus1) = Inr ()
             \<and> count_list (map behaviorType (pipelineBehaviors bus2)) t
                 = count_list (map behaviorType (pipelineBehaviors bus)) t + 2
             \<and> (isApplicable r request ScopeCommand (registration (t, opts)) \<longrightarrow>
                  count_list (map behaviorType (applicableBehaviors bus2 r request ScopeCommand)) t
                    = count_list (map behaviorType (applicableBehaviors bus r request ScopeCommand)) t + 2
                  \<and> (commandHandlers bus (className (requestClass request)) = Some h \<longrightarrow>
                       send bus2 (tracingModuleRef v) r request w
                         = (Inr (), bus2,
                            w @ map Enter (map behaviorType (applicableBehaviors bus2 r request ScopeCommand))
                              @ [HandlerReturns v]
                              @ rev (map Exit (map behaviorType
                                   (applicableBehaviors bus2 r request ScopeCommand))))))
             \<and> (isApplicable r request ScopeQuery (registration (t, opts)) \<longrightarrow>
                  count_list (map behaviorType (applicableBehaviors bus2 r request ScopeQuery)) t
                    = count_list (map behaviorType (applicableBehaviors bus r request ScopeQuery)) t + 2
                  \<and> (queryHandlers bus (className (requestClass request)) = Some h \<longrightarrow>
                       query bus2 (tracingModuleRef v) r request w
                         = (Inr v, bus2,
                            w @ map Enter (map behaviorType (applicableBehaviors bus2 r request ScopeQuery))
                              @ [HandlerReturns v]
                              @ rev (map Exit (map behaviorType
                                   (applicableBehaviors bus2 r request ScopeQuery)))))))"
proof -
  let ?bus1 = "snd (registerPipelineBehavior t opts bus)"
  let ?bus2 = "snd (registerPipelineBehavior t opts ?bus1)"
  have 1: "fst (registerPipelineBehavior t opts bus) = Inr ()"
    by (simp add: registerPipelineBehavior_def Let_def)
  have 2: "fst (registerPipelineBehavior t opts ?bus1) = Inr ()"
    by (simp add: registerPipelineBehavior_def Let_def)
  have 3: "count_list (map behaviorType (pipelineBehaviors ?bus2)) t
             = count_list (map behaviorType (pipelineBehaviors bus)) t + 2"
    by (rule count_registered_twice)
  have 4: "isApplicable r request ScopeCommand (registration (t, opts)) \<longrightarrow>
             count_list (map behaviorType (applicableBehaviors ?bus2 r request ScopeCommand)) t
               = count_list (map behaviorType (applicableBehaviors bus r request ScopeCommand)) t + 2
             \<and> (commandHandlers bus (className (requestClass request)) = Some h \<longrightarrow>
                  send ?bus2 (tracingModuleRef v) r request w
                    = (Inr (), ?bus2,
                       w @ map Enter (map behaviorType (applicableBehaviors ?bus2 r request ScopeCommand))
                         @ [HandlerReturns v]
                         @ rev (map Exit (map behaviorType
                              (applicableBehaviors ?bus2 r request ScopeCommand)))))"
  proof (intro impI conjI)
    assume "isApplicable r request ScopeCommand (registration (t, opts))"
    then show "count_list (map behaviorType (applicableBehaviors ?bus2 r request ScopeCommand)) t
               = count_list (map behaviorType (applicableBehaviors bus r request ScopeCommand)) t + 2"
      by (rule count_applicable_twice)
    assume "commandHandlers bus (className (requestClass request)) = Some h"
    then have "commandHandlers ?bus2 (className (requestClass request)) = Some h" by simp
    then show "send ?bus2 (tracingModuleRef v) r request w
                    = (Inr (), ?bus2,
                       w @ map Enter (map behaviorType (applicableBehaviors ?bus2 r request ScopeCommand))
                         @ [HandlerReturns v]
                         @ rev (map Exit (map behaviorType
                              (applicableBehaviors ?bus2 r request ScopeCommand))))"
      by (rule send_tracing)
  qed
  have 5: "isApplicable r request ScopeQuery (registration (t, opts)) \<longrightarrow>
             count_list (map behaviorType (applicableBehaviors ?bus2 r request ScopeQuery)) t
               = count_list (map behaviorType (applicableBehaviors bus r request ScopeQuery)) t + 2
             \<and> (queryHandlers bus (className (requestClass request)) = Some h \<longrightarrow>
                  query ?bus2 (tracingModuleRef v) r request w
                    = (Inr v, ?bus2,
                       w @ map Enter (map behaviorType (applicableBehaviors ?bus2 r request ScopeQuery))
                         @ [HandlerReturns v]
                         @ rev (map Exit (map behaviorType
                              (applicableBehaviors ?bus2 r request ScopeQuery)))))"
  proof (intro impI conjI)
    assume "isApplicable r request ScopeQuery (registration (t, opts))"
    then show "count_list (map behaviorType (applicableBehaviors ?bus2 r request ScopeQuery)) t
               = count_list (map behaviorType (applicableBehaviors bus r request ScopeQuery)) t + 2"
      by (rule count_applicable_twice)
    assume "queryHandlers bus (className (requestClass request)) = Some h"
    then have "queryHandlers ?bus2 (className (requestClass request)) = Some h" by simp
    then show "query ?bus2 (tracingModuleRef v) r request w
                    = (Inr v, ?bus2,
                       w @ map Enter (map behaviorType (applicableBehaviors ?bus2 r request ScopeQuery))
                         @ [HandlerReturns v]
                         @ rev (map Exit (map behaviorType
                              (applicableBehaviors ?bus2 r request ScopeQuery))))"
      by (rule query_tracing)
  qed
  from 1 2 3 4 5 show ?thesis by (simp only: Let_def)
qed

text \<open>
  The scenario of C10: the logging behavior registered twice on a bus with one command
  handler; the trace of a \<open>send\<close> is enter, enter, handler, exit, exit.
\<close>

theorem C10_behavior_registered_twice_witness:
  "(let LoggingBehavior = Class 31 ''LoggingBehavior'';
        opts = \<lparr>priority = Some 0, scope = Some ScopeAll\<rparr>;
        bus = snd (registerCommandHandler (Class 41 ''CreateUserCommand'')
                    (Class 2 ''CreateUserHandler'') newMediatorBus);
        bus1 = snd (registerPipelineBehavior LoggingBehavior opts bus);
        bus2 = snd (registerPipelineBehavior LoggingBehavior opts bus1);
        command = \<lparr>requestClass = Class 41 ''CreateUserCommand'', isObject = True, payload = ()\<rparr>
    in fst (registerPipelineBehavior LoggingBehavior opts bus) = Inr ()
       \<and> fst (registerPipelineBehavior LoggingBehavior opts bus1) = Inr ()
       \<and> map behaviorType (pipelineBehaviors bus2) = [LoggingBehavior, LoggingBehavior]
       \<and> count_list (map behaviorType (pipelineBehaviors bus2)) LoggingBehavior = 2
       \<and> send bus2 (tracingModuleRef ()) noMetadata command []
           = (Inr (), bus2,
              [Enter LoggingBehavior, Enter LoggingBehavior, HandlerReturns (),
               Exit LoggingBehavior, Exit LoggingBehavior]))"
proof -
  let ?L = "Class 31 ''LoggingBehavior''"
  let ?opts = "\<lparr>priority = Some 0, scope = Some ScopeAll\<rparr>"
  let ?bus = "snd (registerCommandHandler (Class 41 ''CreateUserCommand'')
                    (Class 2 ''CreateUserHandler'') newMediatorBus)"
  let ?bus1 = "snd (registerPipelineBehavior ?L ?opts ?bus)"
  let ?bus2 = "snd (registerPipelineBehavior ?L ?opts ?bus1)"
  let ?command = "\<lparr>requestClass = Class 41 ''CreateUserCommand'', isObject = True, payload = ()\<rparr>"
  have e: "pipelineBehaviors ?bus = []"
    by (simp add: registerCommandHandler_def newMediatorBus_def)
  have h: "commandHandlers ?bus (className (requestClass ?command)) = Some (Class 2 ''CreateUserHandler'')"
    by (simp add: registerCommandHandler_def newMediatorBus_def)
  have ap: "isApplicable noMetadata ?command ScopeCommand (registration (?L, ?opts))"
    by (simp add: isApplicable_def scopeOf_def behaviorsToSkip_def noMetadata_def registration_def)
  have l: "pipelineBehaviors ?bus2 = [registration (?L, ?opts), registration (?L, ?opts)]"
    by (simp add: pipelineBehaviors_register e registration_def priorityOf_def)
  have al: "applicableBehaviors ?bus2 noMetadata ?command ScopeCommand
              = [registration (?L, ?opts), registration (?L, ?opts)]"
    using ap by (simp add: applicableBehaviors_def l)
  have c0: "count_list (map behaviorType (pipelineBehaviors ?bus)) ?L = 0"
    by (simp add: e)
  note t = C10_behavior_registered_twice
             [of ?L ?opts ?bus noMetadata ?command "Class 2 ''CreateUserHandler''" "()" "[]"]
  from t have 1: "fst (registerPipelineBehavior ?L ?opts ?bus) = Inr ()"
    and 2: "fst (registerPipelineBehavior ?L ?opts ?bus1) = Inr ()"
    and 4: "count_list (map behaviorType (pipelineBehaviors ?bus2)) ?L
              = count_list (map behaviorType (pipelineBehaviors ?bus)) ?L + 2"
    by (simp_all only: Let_def)
  from t ap h have 5: "send ?bus2 (tracingModuleRef ()) noMetadata ?command []
           = (Inr (), ?bus2,
              [] @ map Enter (map behaviorType (applicableBehaviors ?bus2 noMetadata ?command ScopeCommand))
                 @ [HandlerReturns ()]
                 @ rev (map Exit (map behaviorType
                      (applicableBehaviors ?bus2 noMetadata ?command ScopeCommand))))"
    by (simp only: Let_def)
  have 3: "map behaviorType (pipelineBehaviors ?bus2) = [?L, ?L]"
    by (simp add: l registration_def)
  have s5: "send ?bus2 (tracingModuleRef ()) noMetadata ?command []
           = (Inr (), ?bus2, [Enter ?L, Enter ?L, HandlerReturns (), Exit ?L, Exit ?L])"
    by (simp add: 5 al registration_def)
  have c4: "count_list (map behaviorType (pipelineBehaviors ?bus2)) ?L = 2"
    using 4 c0 by simp
  from 1 2 3 c4 s5 show ?thesis by (simp only: Let_def simp_thms)
qed

section \<open>Validation\<close>

text \<open>
  C8. For a request that is an object, when \<open>validateRequest\<close> yields the errors
  \<open>errors\<close>: if there is at least one, \<open>handle\<close> rejects with
  \<open>ValidationException\<close> carrying exactly \<open>errors\<close>, whatever the continuation is
  (it is not called); if there is none, \<open>handle\<close> is the continuation run after
  the validation, its outcome unchanged.
\<close>

theorem C8_validation_behavior:
  "isObject request \<Longrightarrow> validateRequest imported request w = (errors, w') \<Longrightarrow>
   (errors \<noteq> [] \<longrightarrow>
      (\<forall>next. ValidationBehavior_handle imported request next w
                = (Inl (ValidationException errors), w')))
   \<and> (errors = [] \<longrightarrow> ValidationBehavior_handle imported request next w = next w')"
  by (simp add: ValidationBehavior_handle_def)

text \<open>
  The scenario of C8: a class-validator that reports \<open>isEmail\<close> and \<open>minLength\<close>
  for an empty payload and nothing otherwise, and writes \<open>validate\<close> to the log; the
  continuation writes \<open>handler\<close> and returns 1.
\<close>

theorem C8_validation_behavior_witness:
  "(let imported =
          Some \<lparr>validate = Some (\<lambda>request w.
                    (Inr (if payload request = []
                          then [CvError ''email'' (Some [(''isEmail'', ''email must be an email'')]) [],
                                CvError ''name'' (Some [(''minLength'', ''name is too short'')]) []]
                          else []),
                     w @ [''validate''])),
                getTargetValidationMetadatas = Some (\<lambda>c n. Inr 2)\<rparr>;
        next = (\<lambda>w. (Inr (1::int), w @ [''handler'']))
    in ValidationBehavior_handle imported
         \<lparr>requestClass = Class 41 ''CreateUserCommand'', isObject = True, payload = []\<rparr> next []
         = (Inl (ValidationException
                   [ValidationError ''email'' ''email must be an email'' None [],
                    ValidationError ''name'' ''name is too short'' None []]),
            [''validate''])
       \<and> ValidationBehavior_handle imported
         \<lparr>requestClass = Class 41 ''CreateUserCommand'', isObject = True, payload = ''a@b.c''\<rparr> next []
         = (Inr 1, [''validate'', ''handler'']))"
proof -
  let ?imported =
    "Some \<lparr>validate = Some (\<lambda>request w.
                    (Inr (if payload request = []
                          then [CvError ''email'' (Some [(''isEmail'', ''email must be an email'')]) [],
                                CvError ''name'' (Some [(''minLength'', ''name is too short'')]) []]
                          else []),
                     w @ [''validate''])),
            getTargetValidationMetadatas = Some (\<lambda>c n. Inr 2)\<rparr>
     :: (string, string list) classValidator option"
  let ?next = "(\<lambda>w. (Inr (1::int), w @ [''handler'']))
             :: string list \<Rightarrow> (error + int) \<times> string list"
  let ?bad = "\<lparr>requestClass = Class 41 ''CreateUserCommand'', isObject = True, payload = []\<rparr>"
  let ?good = "\<lparr>requestClass = Class 41 ''CreateUserCommand'', isObject = True, payload = ''a@b.c''\<rparr>"
  let ?errors = "[ValidationError ''email'' ''email must be an email'' None [],
                  ValidationError ''name'' ''name is too short'' None []]"
  have o1: "isObject ?bad" and o2: "isObject ?good" by simp_all
  have v1: "validateRequest ?imported ?bad [] = (?errors, [''validate''])"
    by (simp add: validateRequest_def)
  have v2: "validateRequest ?imported ?good [] = ([], [''validate''])"
    by (simp add: validateRequest_def)
  have b: "\<forall>next. ValidationBehavior_handle ?imported ?bad next []
              = (Inl (ValidationException ?errors), [''validate''])"
    using C8_validation_behavior [OF o1 v1, of ?next] by simp
  have g: "ValidationBehavior_handle ?imported ?good ?next [] = (Inr 1, [''validate'', ''handler''])"
    using C8_validation_behavior [OF o2 v2, of ?next] by simp
  from b [rule_format, of ?next] g show ?thesis by (simp only: Let_def simp_thms)
qed

section \<open>The identity of a request type\<close>

text \<open>
  C9, as stated, fails: the handler maps are keyed by \<open>command.name\<close> and
  \<open>command.constructor.name\<close>. Two different classes named \<open>CreateUserCommand\<close>
  are one request type to the bus: registering a handler for the second is rejected as
  a duplicate, and an instance of the second is dispatched to the handler of the first.
\<close>

theorem C9_same_name_classes_confused:
  "(let A1 = Class 1 ''CreateUserCommand''; A2 = Class 2 ''CreateUserCommand'';
        H1 = Class 3 ''CreateUserHandler''; H2 = Class 4 ''OtherCreateUserHandler'';
        bus = snd (registerCommandHandler A1 H1 newMediatorBus);
        moduleRef = (\<lambda>c. if c = H1 then Some \<lparr>execute = Some (returningExecute ''first''), handle = None\<rparr>
                         else if c = H2 then Some \<lparr>execute = Some (returningExecute ''second''), handle = None\<rparr>
                         else None);
        request2 = \<lparr>requestClass = A2, isObject = True, payload = ()\<rparr>
    in A1 \<noteq> A2
       \<and> registerCommandHandler A2 H2 bus
           = (Inl (Error ''Command handler for CreateUserCommand is already registered''), bus)
       \<and> send bus moduleRef noMetadata request2 [] = (Inr (), bus, [HandlerReturns ''first'']))"
  by (simp add: Let_def registerCommandHandler_def newMediatorBus_def send_def buildPipeline_def
        applicableBehaviors_def executeHandler_def returningExecute_def)

lemma command_identity_by_name:
  assumes reg: "registerCommandHandler c1 h1 bus = (Inr (), bus')"
  shows "(className c2 = className c1 \<longrightarrow>
      registerCommandHandler c2 h2 bus'
        = (Inl (Error (''Command handler for '' @ className c2 @ '' is already registered'')), bus')
      \<and> (className (requestClass request) = className c1 \<longrightarrow>
           send bus' moduleRef r request w
             = (case moduleRef h1 of
                  None \<Rightarrow> (Inl (UnknownElementException (className h1)), bus', w)
                | Some handler \<Rightarrow>
                    (case buildPipeline bus' moduleRef r request ScopeCommand
                            (executeHandler handler request) w of
                       (Inl e, w') \<Rightarrow> (Inl e, bus', w')
                     | (Inr x, w') \<Rightarrow> (Inr (), bus', w')))))
   \<and> (className c2 \<noteq> className c1 \<longrightarrow>
      commandHandlers bus' (className c2) = commandHandlers bus (className c2)
      \<and> fst (registerCommandHandler c2 h2 bus') = fst (registerCommandHandler c2 h2 bus)
      \<and> (className (requestClass request) = className c2 \<longrightarrow>
           fst (send bus' moduleRef r request w) = fst (send bus moduleRef r request w)
           \<and> snd (snd (send bus' moduleRef r request w)) = snd (snd (send bus moduleRef r request w))))"
proof -
  from reg have none: "commandHandlers bus (className c1) = None"
    by (auto simp: registerCommandHandler_def Let_def split: if_splits)
  from reg have bus': "bus' = bus\<lparr>commandHandlers := (commandHandlers bus)(className c1 \<mapsto> h1)\<rparr>"
    by (simp add: registerCommandHandler_fresh [OF none])
  have l1: "commandHandlers bus' (className c1) = Some h1"
    by (simp add: bus')
  have same: "className c2 = className c1 \<longrightarrow>
      registerCommandHandler c2 h2 bus'
        = (Inl (Error (''Command handler for '' @ className c2 @ '' is already registered'')), bus')
      \<and> (className (requestClass request) = className c1 \<longrightarrow>
           send bus' moduleRef r request w
             = (case moduleRef h1 of
                  None \<Rightarrow> (Inl (UnknownElementException (className h1)), bus', w)
                | Some handler \<Rightarrow>
                    (case buildPipeline bus' moduleRef r request ScopeCommand
                            (executeHandler handler request) w of
                       (Inl e, w') \<Rightarrow> (Inl e, bus', w')
                     | (Inr x, w') \<Rightarrow> (Inr (), bus', w'))))"
    by (simp add: l1 registerCommandHandler_def send_def Let_def split: option.splits)
  have pipe: "\<And>hd. buildPipeline bus' moduleRef r request ScopeCommand hd
                 = buildPipeline bus moduleRef r request ScopeCommand hd"
    by (simp add: bus' buildPipeline_def applicableBehaviors_def)
  have other: "className c2 \<noteq> className c1 \<longrightarrow>
      commandHandlers bus' (className c2) = commandHandlers bus (className c2)
      \<and> fst (registerCommandHandler c2 h2 bus') = fst (registerCommandHandler c2 h2 bus)
      \<and> (className (requestClass request) = className c2 \<longrightarrow>
           fst (send bus' moduleRef r request w) = fst (send bus moduleRef r request w)
           \<and> snd (snd (send bus' moduleRef r request w)) = snd (snd (send bus moduleRef r request w)))"
  proof (intro impI conjI)
    assume d: "className c2 \<noteq> className c1"
    show l: "commandHandlers bus' (className c2) = commandHandlers bus (className c2)"
      using d by (simp add: bus')
    show "fst (registerCommandHandler c2 h2 bus') = fst (registerCommandHandler c2 h2 bus)"
      using l by (simp add: registerCommandHandler_def Let_def)
    assume n: "className (requestClass request) = className c2"
    show "fst (send bus' moduleRef r request w) = fst (send bus moduleRef r request w)"
      using l n by (simp add: send_def pipe Let_def split: option.splits prod.splits sum.splits)
    show "snd (snd (send bus' moduleRef r request w)) = snd (snd (send bus moduleRef r request w))"
      using l n by (simp add: send_def pipe Let_def split: option.splits prod.splits sum.splits)
  qed
  from same other show ?thesis by (intro conjI)
qed

lemma query_identity_by_name:
  assumes reg: "registerQueryHandler c1 h1 bus = (Inr (), bus')"
  shows "(className c2 = className c1 \<longrightarrow>
      registerQueryHandler c2 h2 bus'
        = (Inl (Error (''Query handler for '' @ className c2 @ '' is already registered'')), bus')
      \<and> (className (requestClass request) = className c1 \<longrightarrow>
           query bus' moduleRef r request w
             = (case moduleRef h1 of
                  None \<Rightarrow> (Inl (UnknownElementException (className h1)), bus', w)
                | Some handler \<Rightarrow>
                    (case buildPipeline bus' moduleRef r request ScopeQuery
                            (executeHandler handler request) w of
                       (res, w') \<Rightarrow> (res, bus', w')))))
   \<and> (className c2 \<noteq> className c1 \<longrightarrow>
      queryHandlers bus' (className c2) = queryHandlers bus (className c2)
      \<and> fst (registerQueryHandler c2 h2 bus') = fst (registerQueryHandler c2 h2 bus)
      \<and> (className (requestClass request) = className c2 \<longrightarrow>
           fst (query bus' moduleRef r request w) = fst (query bus moduleRef r request w)
           \<and> snd (snd (query bus' moduleRef r request w)) = snd (snd (query bus moduleRef r request w))))"
proof -
  from reg have none: "queryHandlers bus (className c1) = None"
    by (auto simp: registerQueryHandler_def Let_def split: if_splits)
  from reg have bus': "bus' = bus\<lparr>queryHandlers := (queryHandlers bus)(className c1 \<mapsto> h1)\<rparr>"
    by (simp add: registerQueryHandler_fresh [OF none])
  have l1: "queryHandlers bus' (className c1) = Some h1"
    by (simp add: bus')
  have same: "className c2 = className c1 \<longrightarrow>
      registerQueryHandler c2 h2 bus'
        = (Inl (Error (''Query handler for '' @ className c2 @ '' is already registered'')), bus')
      \<and> (className (requestClass request) = className c1 \<longrightarrow>
           query bus' moduleRef r request w
             = (case moduleRef h1 of
                  None \<Rightarrow> (Inl (UnknownElementException (className h1)), bus', w)
                | Some handler \<Rightarrow>
                    (case buildPipeline bus' moduleRef r request ScopeQuery
                            (executeHandler handler request) w of
                       (res, w') \<Rightarrow> (res, bus', w'))))"
    by (simp add: l1 registerQueryHandler_def query_def Let_def split: option.splits)
  have pipe: "\<And>hd. buildPipeline bus' moduleRef r request ScopeQuery hd
                 = buildPipeline bus moduleRef r request ScopeQuery hd"
    by (simp add: bus' buildPipeline_def applicableBehaviors_def)
  have other: "className c2 \<noteq> className c1 \<longrightarrow>
      queryHandlers bus' (className c2) = queryHandlers bus (className c2)
      \<and> fst (registerQueryHandler c2 h2 bus') = fst (registerQueryHandler c2 h2 bus)
      \<and> (className (requestClass request) = className c2 \<longrightarrow>
           fst (query bus' moduleRef r request w) = fst (query bus moduleRef r request w)
           \<and> snd (snd (query bus' moduleRef r request w)) = snd (snd (query bus moduleRef r request w)))"
  proof (intro impI conjI)
    assume d: "className c2 \<noteq> className c1"
    show l: "queryHandlers bus' (className c2) = queryHandlers bus (className c2)"
      using d by (simp add: bus')
    show "fst (registerQueryHandler c2 h2 bus') = fst (registerQueryHandler c2 h2 bus)"
      using l by (simp add: registerQueryHandler_def Let_def)
    assume n: "className (requestClass request) = className c2"
    show "fst (query bus' moduleRef r request w) = fst (query bus moduleRef r request w)"
      using l n by (simp add: query_def pipe Let_def split: option.splits prod.splits sum.splits)
    show "snd (snd (query bus' moduleRef r request w)) = snd (snd (query bus moduleRef r request w))"
      using l n by (simp add: query_def pipe Let_def split: option.splits prod.splits sum.splits)
  qed
  from same other show ?thesis by (intro conjI)
qed

text \<open>
  C9, amended. The identity used to register and to dispatch a request is the name of
  its class. After \<open>c1\<close> is registered with \<open>h1\<close>: a class \<open>c2\<close> of the same name
  is rejected as a duplicate and requests of that name are dispatched to \<open>h1\<close>; for a
  class \<open>c2\<close> of another name, lookup, registration and dispatch are as they were
  before \<open>c1\<close> was registered. The same holds in the query namespace.
\<close>

theorem C9_identity_is_the_class_name:
  "(registerCommandHandler c1 h1 bus = (Inr (), bus') \<longrightarrow>
      (className c2 = className c1 \<longrightarrow>
         registerCommandHandler c2 h2 bus'
           = (Inl (Error (''Command handler for '' @ className c2 @ '' is already registered'')), bus')
         \<and> (className (requestClass request) = className c1 \<longrightarrow>
              send bus' moduleRef r request w
                = (case moduleRef h1 of
                     None \<Rightarrow> (Inl (UnknownElementException (className h1)), bus', w)
                   | Some handler \<Rightarrow>
                       (case buildPipeline bus' moduleRef r request ScopeCommand
                               (executeHandler handler request) w of
                          (Inl e, w') \<Rightarrow> (Inl e, bus', w')
                        | (Inr x, w') \<Rightarrow> (Inr (), bus', w')))))
      \<and> (className c2 \<noteq> className c1 \<longrightarrow>
         commandHandlers bus' (className c2) = commandHandlers bus (className c2)
         \<and> fst (registerCommandHandler c2 h2 bus') = fst (registerCommandHandler c2 h2 bus)
         \<and> (className (requestClass request) = className c2 \<longrightarrow>
              fst (send bus' moduleRef r request w) = fst (send bus moduleRef r request w)
              \<and> snd (snd (send bus' moduleRef r request w))
                  = snd (snd (send bus moduleRef r request w)))))
   \<and> (registerQueryHandler c1 h1 bus = (Inr (), bus'') \<longrightarrow>
      (className c2 = className c1 \<longrightarrow>
         registerQueryHandler c2 h2 bus''
           = (Inl (Error (''Query handler for '' @ className c2 @ '' is already registered'')), bus'')
         \<and> (className (requestClass request) = className c1 \<longrightarrow>
              query bus'' moduleRef r request w
                = (case moduleRef h1 of
                     None \<Rightarrow> (Inl (UnknownElementException (className h1)), bus'', w)
                   | Some handler \<Rightarrow>
                       (case buildPipeline bus'' moduleRef r request ScopeQuery
                               (executeHandler handler request) w of
                          (res, w') \<Rightarrow> (res, bus'', w')))))
      \<and> (className c2 \<noteq> className c1 \<longrightarrow>
         queryHandlers bus'' (className c2) = queryHandlers bus (className c2)
         \<and> fst (registerQueryHandler c2 h2 bus'') = fst (registerQueryHandler c2 h2 bus)
         \<and> (className (requestClass request) = className c2 \<longrightarrow>
              fst (query bus'' moduleRef r request w) = fst (query bus moduleRef r request w)
              \<and> snd (snd (query bus'' moduleRef r request w))
                  = snd (snd (query bus moduleRef r request w)))))"
proof (intro conjI impI)
  assume reg: "registerCommandHandler c1 h1 bus = (Inr (), bus')"
  note c = command_identity_by_name [OF reg, of c2 h2 request moduleRef r w]
  { assume "className c2 = className c1"
    with c show "registerCommandHandler c2 h2 bus'
           = (Inl (Error (''Command handler for '' @ className c2 @ '' is already registered'')), bus')"
      by blast
    assume "className (requestClass request) = className c1"
    with c \<open>className c2 = className c1\<close>
    show "send bus' moduleRef r request w
                = (case moduleRef h1 of
                     None \<Rightarrow> (Inl (UnknownElementException (className h1)), bus', w)
                   | Some handler \<Rightarrow>
                       (case buildPipeline bus' moduleRef r request ScopeCommand
                               (executeHandler handler request) w of
                          (Inl e, w') \<Rightarrow> (Inl e, bus', w')
                        | (Inr x, w') \<Rightarrow> (Inr (), bus', w')))"
      by blast }
  { assume d: "className c2 \<noteq> className c1"
    with c show "commandHandlers bus' (className c2) = commandHandlers bus (className c2)"
      by blast
    from c d show "fst (registerCommandHandler c2 h2 bus') = fst (registerCommandHandler c2 h2 bus)"
      by blast
    assume n: "className (requestClass request) = className c2"
    from c d n show "fst (send bus' moduleRef r request w) = fst (send bus moduleRef r request w)"
      by blast
    from c d n show "snd (snd (send bus' moduleRef r request w))
                  = snd (snd (send bus moduleRef r request w))"
      by blast }
next
  assume reg: "registerQueryHandler c1 h1 bus = (Inr (), bus'')"
  note c = query_identity_by_name [OF reg, of c2 h2 request moduleRef r w]
  { assume "className c2 = className c1"
    with c show "registerQueryHandler c2 h2 bus''
           = (Inl (Error (''Query handler for '' @ className c2 @ '' is already registered'')), bus'')"
      by blast
    assume "className (requestClass request) = className c1"
    with c \<open>className c2 = className c1\<close>
    show "query bus'' moduleRef r request w
                = (case moduleRef h1 of
                     None \<Rightarrow> (Inl (UnknownElementException (className h1)), bus'', w)
                   | Some handler \<Rightarrow>
                       (case buildPipeline bus'' moduleRef r request ScopeQuery
                               (executeHandler handler request) w of
                          (res, w') \<Rightarrow> (res, bus'', w')))"
      by blast }
  { assume d: "className c2 \<noteq> className c1"
    with c show "queryHandlers bus'' (className c2) = queryHandlers bus (className c2)"
      by blast
    from c d show "fst (registerQueryHandler c2 h2 bus'') = fst (registerQueryHandler c2 h2 bus)"
      by blast
    assume n: "className (requestClass request) = className c2"
    from c d n show "fst (query bus'' moduleRef r request w) = fst (query bus moduleRef r request w)"
      by blast
    from c d n show "snd (snd (query bus'' moduleRef r request w))
                  = snd (snd (query bus moduleRef r request w))"
      by blast }
qed

text \<open>
  The scenario of the amended C9: \<open>CreateUserCommand\<close> registered; a second class of
  that name and a class \<open>DeleteUserCommand\<close>.
\<close>

theorem C9_identity_is_the_class_name_witness:
  "(let A1 = Class 41 ''CreateUserCommand''; A2 = Class 42 ''CreateUserCommand'';
        D = Class 6 ''DeleteUserCommand'';
        H1 = Class 3 ''CreateUserHandler''; H2 = Class 4 ''OtherHandler'';
        created = snd (registerCommandHandler A1 H1 newMediatorBus);
        asked = snd (registerQueryHandler A1 H1 newMediatorBus);
        moduleRef = (\<lambda>c. if c = H1
                          then Some \<lparr>execute = Some (returningExecute ''first''), handle = None\<rparr>
                          else None);
        request2 = \<lparr>requestClass = A2, isObject = True, payload = ()\<rparr>;
        requestD = \<lparr>requestClass = D, isObject = True, payload = ()\<rparr>
    in registerCommandHandler A1 H1 newMediatorBus = (Inr (), created)
       \<and> registerCommandHandler A2 H2 created
           = (Inl (Error ''Command handler for CreateUserCommand is already registered''), created)
       \<and> send created moduleRef noMetadata request2 [] = (Inr (), created, [HandlerReturns ''first''])
       \<and> commandHandlers created (className D) = None
       \<and> fst (registerCommandHandler D H2 created) = Inr ()
       \<and> fst (send created moduleRef noMetadata requestD [])
           = Inl (HandlerNotFoundException ''DeleteUserCommand'' ScopeCommand)
       \<and> registerQueryHandler A1 H1 newMediatorBus = (Inr (), asked)
       \<and> registerQueryHandler A2 H2 asked
           = (Inl (Error ''Query handler for CreateUserCommand is already registered''), asked)
       \<and> query asked moduleRef noMetadata request2 [] = (Inr ''first'', asked, [HandlerReturns ''first''])
       \<and> queryHandlers asked (className D) = None
       \<and> fst (registerQueryHandler D H2 asked) = Inr ()
       \<and> fst (query asked moduleRef noMetadata requestD [])
           = Inl (HandlerNotFoundException ''DeleteUserCommand'' ScopeQuery))"
proof -
  let ?A1 = "Class 41 ''CreateUserCommand''"
  let ?A2 = "Class 42 ''CreateUserCommand''"
  let ?D = "Class 6 ''DeleteUserCommand''"
  let ?H1 = "Class 3 ''CreateUserHandler''"
  let ?H2 = "Class 4 ''OtherHandler''"
  let ?created = "snd (registerCommandHandler ?A1 ?H1 newMediatorBus)"
  let ?asked = "snd (registerQueryHandler ?A1 ?H1 newMediatorBus)"
  let ?m = "(\<lambda>c. if c = ?H1
                          then Some \<lparr>execute = Some (returningExecute ''first''), handle = None\<rparr>
                          else None) :: (unit, string event list, string) moduleRef"
  let ?request2 = "\<lparr>requestClass = ?A2, isObject = True, payload = ()\<rparr>"
  let ?requestD = "\<lparr>requestClass = ?D, isObject = True, payload = ()\<rparr>"
  have rc: "registerCommandHandler ?A1 ?H1 newMediatorBus = (Inr (), ?created)"
    by (simp add: registerCommandHandler_def newMediatorBus_def)
  have rq: "registerQueryHandler ?A1 ?H1 newMediatorBus = (Inr (), ?asked)"
    by (simp add: registerQueryHandler_def newMediatorBus_def)
  have ec: "pipelineBehaviors ?created = []"
    by (simp add: registerCommandHandler_def newMediatorBus_def)
  have eq: "pipelineBehaviors ?asked = []"
    by (simp add: registerQueryHandler_def newMediatorBus_def)
  have pc: "\<And>h. buildPipeline ?created ?m noMetadata ?request2 ScopeCommand h = h"
    by (simp add: buildPipeline_def applicableBehaviors_def ec)
  have pq: "\<And>h. buildPipeline ?asked ?m noMetadata ?request2 ScopeQuery h = h"
    by (simp add: buildPipeline_def applicableBehaviors_def eq)
  have nc: "commandHandlers newMediatorBus (className ?D) = None"
       "queryHandlers newMediatorBus (className ?D) = None"
    by (simp_all add: newMediatorBus_def)
  note same = C9_identity_is_the_class_name
                [of ?A1 ?H1 newMediatorBus ?created ?A2 ?H2 ?request2 ?m noMetadata "[]" ?asked]
  note other = C9_identity_is_the_class_name
                [of ?A1 ?H1 newMediatorBus ?created ?D ?H2 ?requestD ?m noMetadata "[]" ?asked]
  from same rc have 2: "registerCommandHandler ?A2 ?H2 ?created
           = (Inl (Error ''Command handler for CreateUserCommand is already registered''), ?created)"
    by simp
  from same rc have 3: "send ?created ?m noMetadata ?request2 []
           = (Inr (), ?created, [HandlerReturns ''first''])"
    by (simp add: pc executeHandler_def returningExecute_def)
  from other rc have 4: "commandHandlers ?created (className ?D) = None"
    and 5: "fst (registerCommandHandler ?D ?H2 ?created) = Inr ()"
    and 6: "fst (send ?created ?m noMetadata ?requestD [])
           = Inl (HandlerNotFoundException ''DeleteUserCommand'' ScopeCommand)"
    by (simp_all add: nc registerCommandHandler_def send_def Let_def newMediatorBus_def)
  from same rq have 8: "registerQueryHandler ?A2 ?H2 ?asked
           = (Inl (Error ''Query handler for CreateUserCommand is already registered''), ?asked)"
    by simp
  from same rq have 9: "query ?asked ?m noMetadata ?request2 []
           = (Inr ''first'', ?asked, [HandlerReturns ''first''])"
    by (simp add: pq executeHandler_def returningExecute_def)
  from other rq have 10: "queryHandlers ?asked (className ?D) = None"
    and 11: "fst (registerQueryHandler ?D ?H2 ?asked) = Inr ()"
    and 12: "fst (query ?asked ?m noMetadata ?requestD [])
           = Inl (HandlerNotFoundException ''DeleteUserCommand'' ScopeQuery)"
    by (simp_all add: nc registerQueryHandler_def query_def Let_def newMediatorBus_def)
  from rc 2 3 4 5 6 rq 8 9 10 11 12 show ?thesis by (simp only: Let_def simp_thms)
qed

end
